theory Spec2Isabelle
  imports Complex_Main
begin

section \<open>Numbers and errors\<close>

text \<open>
  The Go code computes on \<^verbatim>\<open>float64\<close> values and stores them in
  \<^verbatim>\<open>DECIMAL(10, 2)\<close> columns. The model of the handler and of the transaction
  engine follows the amounts and balances as the numbers they stand for: there a
  \<^verbatim>\<open>float64\<close> is a real number and the arithmetic on it is exact, so that binary
  rounding error and the special values (NaN, infinities) are outside that model. What
  the amount normalizer computes on binary64 values, these included, is modelled on its
  own, in the section on the normalizer on binary64 values below.
\<close>

type_synonym float64 = real

text \<open>
  The sentinel errors of \<^verbatim>\<open>helpers.go\<close> (lines 17-29), followed by the failures of
  the storage layer: the errors PostgreSQL raises for the constraints of the two
  migrations, the empty result of a \<^verbatim>\<open>:one\<close> query, a failure of
  \<^verbatim>\<open>Begin\<close>, \<^verbatim>\<open>Commit\<close> or \<^verbatim>\<open>Rollback\<close>,
  and \<^verbatim>\<open>errors.Join\<close>.
\<close>

datatype error =
    ErrBodyCannotBeEmpty
  | ErrInvalidID
  | ErrInvalidAmount
  | ErrAmountMustBePositive
  | ErrInsufficientBalance
  | ErrInvalidTransactionType
  | ErrUserNotFound
  | ErrAccountNotFound
  | ErrTransactionNotFound
  | ErrDuplicateUser
  | ErrDuplicateAccount
  | PgNoRows
  | PgUniqueViolation
  | PgForeignKeyViolation
  | PgCheckViolation
  | PgNumericOverflow
  | PgConnection
  | Joined error error

section \<open>Amount normalizer (\<^verbatim>\<open>helpers.ParseAmount\<close>)\<close>

text \<open>
  \<^verbatim>\<open>math.Round\<close>: the nearest integer, halves rounded away from zero.
\<close>

definition math_Round :: "float64 \<Rightarrow> int" where
  "math_Round x = (if x < 0 then - \<lfloor>- x + 1 / 2\<rfloor> else \<lfloor>x + 1 / 2\<rfloor>)"

text \<open>
  \<^verbatim>\<open>strconv.ParseFloat\<close> belongs to the Go library; it is a parameter
  \<open>pf\<close> of the embedding, \<open>None\<close> standing for a returned error. This is the
  normalizer on exact values, as the handler's model uses it: \<open>pf\<close> yields the number
  the string parses to, and the result is a whole number of hundredths.
  \<open>ParseAmount_binary64\<close> below is the same function on binary64 values.

  \<^verbatim>\<open>
  func ParseAmount(amountStr string) (float64, error) {
      if amountStr == "" { return 0, ErrInvalidAmount }
      amount, err := strconv.ParseFloat(amountStr, 64)
      if err != nil { return 0, ErrInvalidAmount }
      if amount <= 0 { return 0, ErrAmountMustBePositive }
      return float64(math.Round(amount*100) / 100), nil
  }
  \<close>
\<close>

definition ParseAmount :: "(string \<Rightarrow> float64 option) \<Rightarrow> string \<Rightarrow> error + float64" where
  "ParseAmount pf amountStr =
     (if amountStr = [] then Inl ErrInvalidAmount
      else case pf amountStr of
             None \<Rightarrow> Inl ErrInvalidAmount
           | Some amount \<Rightarrow>
               if amount \<le> 0 then Inl ErrAmountMustBePositive
               else Inr (of_int (math_Round (amount * 100)) / 100))"

section \<open>Identifiers (\<^verbatim>\<open>helpers.ValidateID\<close>)\<close>

text \<open>
  \<^verbatim>\<open>strconv.ParseInt(s, 10, 64)\<close>: an optional sign, then one or more decimal
  digits, the value within the range of \<^verbatim>\<open>int64\<close>; \<open>None\<close> is a returned
  error (syntax or range).
\<close>

definition digit :: "char \<Rightarrow> int option" where
  "digit c = (let n = (of_char c :: int) in if 48 \<le> n \<and> n \<le> 57 then Some (n - 48) else None)"

fun digits_value :: "int \<Rightarrow> string \<Rightarrow> int option" where
  "digits_value acc [] = Some acc"
| "digits_value acc (c # cs) =
     (case digit c of None \<Rightarrow> None | Some d \<Rightarrow> digits_value (10 * acc + d) cs)"

definition strconv_ParseInt :: "string \<Rightarrow> int option" where
  "strconv_ParseInt s =
     (let neg = (s \<noteq> [] \<and> hd s = CHR ''-'');
          ds = (if s \<noteq> [] \<and> (hd s = CHR ''+'' \<or> hd s = CHR ''-'') then tl s else s)
      in if ds = [] then None
         else case digits_value 0 ds of
                None \<Rightarrow> None
              | Some n \<Rightarrow>
                  (let v = (if neg then - n else n)
                   in if - (2 ^ 63) \<le> v \<and> v < 2 ^ 63 then Some v else None))"

text \<open>
  \<^verbatim>\<open>
  func ValidateID(userIDStr string) (int64, error) {
      if userIDStr == "" { return 0, ErrInvalidID }
      userID, err := strconv.ParseInt(userIDStr, 10, 64)
      if err != nil { return 0, ErrInvalidID }
      if userID <= 0 { return 0, ErrInvalidID }
      return userID, nil
  }
  \<close>
\<close>

definition ValidateID :: "string \<Rightarrow> error + int" where
  "ValidateID userIDStr =
     (if userIDStr = [] then Inl ErrInvalidID
      else case strconv_ParseInt userIDStr of
             None \<Rightarrow> Inl ErrInvalidID
           | Some userID \<Rightarrow> if userID \<le> 0 then Inl ErrInvalidID else Inr userID)"

section \<open>Data model\<close>

text \<open>
  A row of the \<^verbatim>\<open>accounts\<close> table (migration 000002), which is what the
  generated \<^verbatim>\<open>sqlc.Account\<close> carries, and a row of the \<^verbatim>\<open>transactions\<close>
  table (migration 000003). The \<^verbatim>\<open>inserted_at\<close> columns hold the server's clock
  and are left out.
\<close>

record Account =
  a_id :: int
  a_user_id :: int
  a_balance :: float64
  a_currency :: string
  a_status :: string

record LedgerRow =
  t_id :: string
  t_account_id :: int
  t_amount :: float64
  t_source :: string
  t_type :: string

text \<open>The committed state of the database: the two tables, in insertion order.\<close>

record DB =
  accounts :: "Account list"
  transactions :: "LedgerRow list"

text \<open>\<^verbatim>\<open>models.Transaction\<close>, the struct the request body is decoded into.\<close>

record Transaction =
  ID :: string
  AccountID :: int
  Amount :: string
  AmountFloat :: float64
  Source :: string
  TransactionType :: string
  InsertedAt :: string

section \<open>Storage layer\<close>

text \<open>
  A value assigned to a \<^verbatim>\<open>DECIMAL(10, 2)\<close> column is rounded to two decimal
  places (halves away from zero) and must then be below \<open>10\<^sup>8\<close> in absolute
  value; otherwise PostgreSQL raises a numeric field overflow.
\<close>

definition numeric_10_2 :: "float64 \<Rightarrow> float64 option" where
  "numeric_10_2 x =
     (let r = of_int (math_Round (x * 100)) / 100
      in if \<bar>r\<bar> < 10 ^ 8 then Some r else None)"

text \<open>
  \<^verbatim>\<open>sqlc.CreateTransactionParams\<close> and \<^verbatim>\<open>sqlc.UpdateAccountParams\<close>, with
  the fields the callers set.
\<close>

record CreateTransactionParams =
  p_ID :: string
  p_AccountID :: int
  p_Amount :: float64
  p_Source :: string
  p_Type :: string

record UpdateAccountParams =
  u_ID :: int
  u_Balance :: float64

text \<open>
  \<^verbatim>\<open>CreateTransaction\<close>: the query
  \<^verbatim>\<open>INSERT INTO transactions (id, account_id, amount, source, type) VALUES ($1, ..., $5) RETURNING *\<close>
  against the table
  \<^verbatim>\<open>
  CREATE TABLE transactions (
      id TEXT PRIMARY KEY DEFAULT gen_random_uuid(),
      account_id BIGINT NOT NULL REFERENCES accounts(id),
      amount DECIMAL(10, 2) NOT NULL,
      source VARCHAR(20) NOT NULL CHECK (source IN ('game', 'server', 'payment')),
      type VARCHAR(20) NOT NULL CHECK (type IN ('win', 'lose')), ...
  \<close>
  The amount is coerced to the column type, then the row is checked against the
  \<^verbatim>\<open>CHECK\<close> constraints, the primary key and the foreign key. A failed statement
  leaves the tables as they were. (A source or type longer than 20 characters is
  refused by the column type; it is not one of the listed values, and the model reports
  it as a check violation.)
\<close>

definition CreateTransaction :: "CreateTransactionParams \<Rightarrow> DB \<Rightarrow> (error + LedgerRow) \<times> DB" where
  "CreateTransaction arg db =
     (case numeric_10_2 (p_Amount arg) of
        None \<Rightarrow> (Inl PgNumericOverflow, db)
      | Some amount \<Rightarrow>
          if p_Source arg \<notin> {''game'', ''server'', ''payment''} \<or> p_Type arg \<notin> {''win'', ''lose''}
          then (Inl PgCheckViolation, db)
          else if p_ID arg \<in> set (map t_id (transactions db))
          then (Inl PgUniqueViolation, db)
          else if p_AccountID arg \<notin> set (map a_id (accounts db))
          then (Inl PgForeignKeyViolation, db)
          else
            (let row = \<lparr>t_id = p_ID arg, t_account_id = p_AccountID arg, t_amount = amount,
                         t_source = p_Source arg, t_type = p_Type arg\<rparr>
             in (Inr row, db\<lparr>transactions := transactions db @ [row]\<rparr>)))"

text \<open>
  The generated queries on the \<^verbatim>\<open>accounts\<close> table are not among the sources;
  only their calls and their parameter structs are. The table is
  \<^verbatim>\<open>
  CREATE TABLE accounts (
      id BIGSERIAL PRIMARY KEY,
      user_id BIGINT NOT NULL REFERENCES users(id),
      balance DECIMAL(10, 2) NOT NULL,
      currency VARCHAR(3) NOT NULL DEFAULT 'EUR',
      status VARCHAR(20) NOT NULL DEFAULT 'active', ...
  \<close>
  A \<^verbatim>\<open>:one\<close> query that finds no row returns the driver's no-rows error.
\<close>

text \<open>
  Modelled from the spec: the query \<^verbatim>\<open>GetAccount\<close> is missing. The spec's
  \<open>get(accountID)\<close> returns the account, and fails if no such account exists.
\<close>

definition GetAccount :: "int \<Rightarrow> DB \<Rightarrow> error + Account" where
  "GetAccount accountID db =
     (case find (\<lambda>a. a_id a = accountID) (accounts db) of
        None \<Rightarrow> Inl PgNoRows
      | Some a \<Rightarrow> Inr a)"

text \<open>
  Modelled from the spec: the query \<^verbatim>\<open>GetAccountByUser\<close> is missing. The
  spec's \<open>getByUser(userID)\<close> returns an account of the user, and fails if the user
  has no account.
\<close>

definition GetAccountByUser :: "int \<Rightarrow> DB \<Rightarrow> error + Account" where
  "GetAccountByUser user_id db =
     (case find (\<lambda>a. a_user_id a = user_id) (accounts db) of
        None \<Rightarrow> Inl PgNoRows
      | Some a \<Rightarrow> Inr a)"

text \<open>
  Modelled from the spec: the query \<^verbatim>\<open>UpdateAccount\<close> is missing; its
  parameters are the id of an account and a balance. The spec's account store persists
  the new balance of that account and returns the updated account. \<open>set_balance\<close>
  is the effect on the table: the balance of the rows with that id is replaced, every
  other column and row is kept.
\<close>

definition set_balance :: "int \<Rightarrow> float64 \<Rightarrow> DB \<Rightarrow> DB" where
  "set_balance i b db =
     db\<lparr>accounts := map (\<lambda>a. if a_id a = i then a\<lparr>a_balance := b\<rparr> else a) (accounts db)\<rparr>"

text \<open>
  Modelled from the spec: \<^verbatim>\<open>UpdateAccount\<close> itself. The balance is coerced to
  the column type; the query fails when no row has the id.
\<close>

definition UpdateAccount :: "UpdateAccountParams \<Rightarrow> DB \<Rightarrow> (error + Account) \<times> DB" where
  "UpdateAccount arg db =
     (case numeric_10_2 (u_Balance arg) of
        None \<Rightarrow> (Inl PgNumericOverflow, db)
      | Some b \<Rightarrow>
          (case find (\<lambda>a. a_id a = u_ID arg) (accounts db) of
             None \<Rightarrow> (Inl PgNoRows, db)
           | Some a \<Rightarrow> (Inr (a\<lparr>a_balance := b\<rparr>), set_balance (u_ID arg) b db)))"

text \<open>
  The connection pool, as far as \<^verbatim>\<open>runInTx\<close> sees it: whether
  \<^verbatim>\<open>Begin\<close>, \<^verbatim>\<open>Commit\<close> and \<^verbatim>\<open>Rollback\<close> return an error.
\<close>

record Pool =
  begin_err :: "error option"
  commit_err :: "error option"
  rollback_err :: "error option"

definition pool_ok :: Pool where
  "pool_ok = \<lparr>begin_err = None, commit_err = None, rollback_err = None\<rparr>"

section \<open>Transaction engine\<close>

text \<open>
  \<^verbatim>\<open>
  func runInTx(db *database.DB, fn func(queries *sqlc.Queries) error) error {
      tx, err := db.Pool.Begin(context.Background())
      if err != nil { return err }
      queries := db.Queries.WithTx(tx)
      err = fn(queries)
      if err == nil { return tx.Commit(context.Background()) }
      rollbackErr := tx.Rollback(context.Background())
      if rollbackErr != nil { return errors.Join(err, rollbackErr) }
      return err
  }
  \<close>
  The queries bound to the transaction work on a copy of the committed state; the
  copy replaces the committed state on a successful commit and is dropped otherwise.
\<close>

definition runInTx :: "Pool \<Rightarrow> (DB \<Rightarrow> error option \<times> DB) \<Rightarrow> DB \<Rightarrow> error option \<times> DB" where
  "runInTx pool fn db =
     (case begin_err pool of
        Some err \<Rightarrow> (Some err, db)
      | None \<Rightarrow>
          (case fn db of
             (None, db') \<Rightarrow>
               (case commit_err pool of None \<Rightarrow> (None, db') | Some err \<Rightarrow> (Some err, db))
           | (Some err, db') \<Rightarrow>
               (case rollback_err pool of
                  Some rollbackErr \<Rightarrow> (Some (Joined err rollbackErr), db)
                | None \<Rightarrow> (Some err, db))))"

text \<open>
  \<^verbatim>\<open>
  func createTransactionInTx(queries *sqlc.Queries, transaction models.Transaction) (sqlc.Transaction, error) {
      params := sqlc.CreateTransactionParams{
          ID: transaction.ID, AccountID: transaction.AccountID, Amount: transaction.AmountFloat,
          Source: transaction.Source, Type: transaction.TransactionType,
      }
      return queries.CreateTransaction(context.Background(), params)
  }
  \<close>
\<close>

definition createTransactionInTx :: "Transaction \<Rightarrow> DB \<Rightarrow> (error + LedgerRow) \<times> DB" where
  "createTransactionInTx transaction db =
     CreateTransaction
       \<lparr>p_ID = ID transaction, p_AccountID = AccountID transaction,
        p_Amount = AmountFloat transaction, p_Source = Source transaction,
        p_Type = TransactionType transaction\<rparr> db"

text \<open>
  \<^verbatim>\<open>
  account, err := queries.GetAccount(context.Background(), accountID)
  if err != nil { return sqlc.Account{}, err }
  currentBalance := account.Balance
  switch transactionType {
  case "win", "deposit":
      newBalance = currentBalance + amount
  case "lose", "withdrawal":
      newBalance = currentBalance - amount
      if newBalance < 0 { return sqlc.Account{}, helpers.ErrInsufficientBalance }
  default:
      return sqlc.Account{}, helpers.ErrInvalidTransactionType
  }
  params := sqlc.UpdateAccountParams{ID: accountID, Balance: newBalance}
  updatedAccount, err := queries.UpdateAccount(context.Background(), params)
  if err != nil { return sqlc.Account{}, err }
  return updatedAccount, nil
  \<close>
\<close>

definition updateBalanceInTx :: "int \<Rightarrow> float64 \<Rightarrow> string \<Rightarrow> DB \<Rightarrow> (error + Account) \<times> DB" where
  "updateBalanceInTx accountID amount transactionType db =
     (case GetAccount accountID db of
        Inl err \<Rightarrow> (Inl err, db)
      | Inr account \<Rightarrow>
          (let currentBalance = a_balance account
           in case (if transactionType = ''win'' \<or> transactionType = ''deposit''
                    then Inr (currentBalance + amount)
                    else if transactionType = ''lose'' \<or> transactionType = ''withdrawal''
                    then (if currentBalance - amount < 0 then Inl ErrInsufficientBalance
                          else Inr (currentBalance - amount))
                    else Inl ErrInvalidTransactionType) of
                Inl err \<Rightarrow> (Inl err, db)
              | Inr newBalance \<Rightarrow> UpdateAccount \<lparr>u_ID = accountID, u_Balance = newBalance\<rparr> db))"

text \<open>
  \<^verbatim>\<open>
  func validateAndParseTransactionAmount(transaction models.Transaction) (models.Transaction, error) {
      amount, err := helpers.ParseAmount(transaction.Amount)
      if err != nil { return models.Transaction{}, err }
      transaction.AmountFloat = amount
      return transaction, nil
  }
  \<close>
\<close>

definition validateAndParseTransactionAmount ::
    "(string \<Rightarrow> float64 option) \<Rightarrow> Transaction \<Rightarrow> error + Transaction" where
  "validateAndParseTransactionAmount pf transaction =
     (case ParseAmount pf (Amount transaction) of
        Inl err \<Rightarrow> Inl err
      | Inr amount \<Rightarrow> Inr (transaction\<lparr>AmountFloat := amount\<rparr>))"

section \<open>Request decoding and validation (\<^verbatim>\<open>helpers.ValidateBodyWithDetails\<close>)\<close>

text \<open>
  The JSON object of a request body, as \<^verbatim>\<open>encoding/json\<close> sees it when it
  decodes into a \<^verbatim>\<open>models.Transaction\<close>: one optional value per field of the
  struct, under the field's JSON name (\<^verbatim>\<open>AmountFloat\<close> and
  \<^verbatim>\<open>inserted_at\<close> included). A key that is absent or \<^verbatim>\<open>null\<close> is
  \<open>None\<close> and leaves the field of the target struct as it is.
\<close>

record TransactionJSON =
  j_transactionId :: "string option"
  j_account_id :: "int option"
  j_amount :: "string option"
  j_AmountFloat :: "float64 option"
  j_source :: "string option"
  j_state :: "string option"
  j_inserted_at :: "string option"

definition json_Decode :: "TransactionJSON \<Rightarrow> Transaction \<Rightarrow> Transaction" where
  "json_Decode j t =
     \<lparr>ID = (case j_transactionId j of None \<Rightarrow> ID t | Some v \<Rightarrow> v),
      AccountID = (case j_account_id j of None \<Rightarrow> AccountID t | Some v \<Rightarrow> v),
      Amount = (case j_amount j of None \<Rightarrow> Amount t | Some v \<Rightarrow> v),
      AmountFloat = (case j_AmountFloat j of None \<Rightarrow> AmountFloat t | Some v \<Rightarrow> v),
      Source = (case j_source j of None \<Rightarrow> Source t | Some v \<Rightarrow> v),
      TransactionType = (case j_state j of None \<Rightarrow> TransactionType t | Some v \<Rightarrow> v),
      InsertedAt = (case j_inserted_at j of None \<Rightarrow> InsertedAt t | Some v \<Rightarrow> v)\<rparr>"

text \<open>
  \<^verbatim>\<open>isEmptyStruct\<close>: every string field empty, every integer and float field zero.
\<close>

definition isEmptyStruct :: "Transaction \<Rightarrow> bool" where
  "isEmptyStruct t =
     (ID t = [] \<and> AccountID t = 0 \<and> Amount t = [] \<and> AmountFloat t = 0 \<and> Source t = []
      \<and> TransactionType t = [] \<and> InsertedAt t = [])"

text \<open>
  \<^verbatim>\<open>generateValidationErrorMessage\<close>, for the two tags the struct uses.
\<close>

definition msg_required :: "string \<Rightarrow> string" where
  "msg_required fieldName = ''The '' @ fieldName @ '' field is required''"

definition msg_oneof :: "string \<Rightarrow> string \<Rightarrow> string" where
  "msg_oneof fieldName param = ''The '' @ fieldName @ '' must be one of: '' @ param"

text \<open>
  The validator run on the struct tags of \<^verbatim>\<open>models.Transaction\<close>:
  \<^verbatim>\<open>
  ID              string `json:"transactionId" validate:"required"`
  AccountID       int64  `json:"account_id" validate:"required"`
  Amount          string `json:"amount" validate:"required"`
  Source          string `json:"source" validate:"required,oneof=game server payment"`
  TransactionType string `json:"state" validate:"required,oneof=win lose"`
  \<close>
  Each field reports its first failing tag, under its JSON name.
\<close>

definition validate_Struct :: "Transaction \<Rightarrow> (string \<times> string) list" where
  "validate_Struct t =
     (if ID t = [] then [(''transactionId'', msg_required ''transactionId'')] else [])
     @ (if AccountID t = 0 then [(''account_id'', msg_required ''account_id'')] else [])
     @ (if Amount t = [] then [(''amount'', msg_required ''amount'')] else [])
     @ (if Source t = [] then [(''source'', msg_required ''source'')]
        else if Source t \<notin> {''game'', ''server'', ''payment''}
        then [(''source'', msg_oneof ''source'' ''game server payment'')] else [])
     @ (if TransactionType t = [] then [(''state'', msg_required ''state'')]
        else if TransactionType t \<notin> {''win'', ''lose''}
        then [(''state'', msg_oneof ''state'' ''win lose'')] else [])"

text \<open>
  \<^verbatim>\<open>ValidateBodyWithDetails(r, &transaction)\<close>. The body is \<open>Inl msg\<close> when the
  decoder fails with message \<open>msg\<close>, \<open>Inr j\<close> when it holds the object \<open>j\<close>. The
  result is \<open>Inl errors\<close> for \<^verbatim>\<open>(false, errors)\<close> and \<open>Inr t\<close> for
  \<^verbatim>\<open>(true, nil)\<close>, \<open>t\<close> being the struct the body was decoded into.
\<close>

definition ValidateBodyWithDetails ::
    "string + TransactionJSON \<Rightarrow> Transaction \<Rightarrow> (string \<times> string) list + Transaction" where
  "ValidateBodyWithDetails body reqData =
     (case body of
        Inl err \<Rightarrow> Inl [(''body'', ''Invalid JSON format: '' @ err)]
      | Inr j \<Rightarrow>
          (let t = json_Decode j reqData
           in if isEmptyStruct t then Inl [(''body'', ''Request body cannot be empty'')]
              else case validate_Struct t of
                     [] \<Rightarrow> Inr t
                   | e # es \<Rightarrow> Inl (e # es)))"

section \<open>The handler \<^verbatim>\<open>CreateTransactionHandler\<close>\<close>

text \<open>
  A request to \<^verbatim>\<open>POST /user/{userId}/transaction\<close>: the path variable, the
  \<^verbatim>\<open>Source-Type\<close> header (empty when absent) and the body. The middleware of the
  route, which refuses a request whose header is not a valid source before the handler
  runs, is not part of the handler and is not modelled.
\<close>

record Request =
  userId :: string
  Source_Type :: string
  body :: "string + TransactionJSON"

text \<open>
  What the handler answers: the helper it calls and the arguments it passes. The
  \<^verbatim>\<open>responseData\<close> map of a success is kept as the list of its entries.
\<close>

datatype json = JString string | JNumber float64 | JInt int

datatype Response =
    HandleAPIError error
  | HandleDatabaseError error string
  | RespondValidationError "(string \<times> string) list"
  | RespondSuccess "(string \<times> json) list"

text \<open>
  The function literal passed to \<^verbatim>\<open>runInTx\<close> (lines 472-486 of the handler):
  \<^verbatim>\<open>
  _, err := createTransactionInTx(queries, transaction)
  if err != nil { return err }
  _, err = updateBalanceInTx(queries, account.ID, transaction.AmountFloat, transaction.TransactionType)
  if err != nil { return err }
  return nil
  \<close>
\<close>

definition CreateTransactionHandler_fn :: "Transaction \<Rightarrow> Account \<Rightarrow> DB \<Rightarrow> error option \<times> DB" where
  "CreateTransactionHandler_fn transaction account db =
     (case createTransactionInTx transaction db of
        (Inl err, db1) \<Rightarrow> (Some err, db1)
      | (Inr _, db1) \<Rightarrow>
          (case updateBalanceInTx (a_id account) (AmountFloat transaction)
                  (TransactionType transaction) db1 of
             (Inl err, db2) \<Rightarrow> (Some err, db2)
           | (Inr _, db2) \<Rightarrow> (None, db2)))"

text \<open>
  \<^verbatim>\<open>
  userID, err := helpers.ValidateID(userIDStr)
  if err != nil { helpers.HandleAPIError(w, err); return }
  account, err := GetAccountByUser(userID)
  if err != nil { helpers.HandleDatabaseError(w, err, "Account"); return }
  source := r.Header.Get("Source-Type")
  transaction := models.Transaction{AccountID: account.ID, Source: source}
  if ok, validationErrors := helpers.ValidateBodyWithDetails(r, &transaction); !ok {
      helpers.RespondValidationError(w, validationErrors); return
  }
  transaction, err = validateAndParseTransactionAmount(transaction)
  if err != nil { helpers.HandleAPIError(w, err); return }
  err = runInTx(database.DBClient, func(queries *sqlc.Queries) error { ... })
  if err != nil { helpers.HandleDatabaseError(w, err, "Transaction"); return }
  responseData := map[string]interface{}{
      "user_account_id": userID, "transaction_id": transaction.ID,
      "amount": transaction.AmountFloat, "type": transaction.TransactionType,
      "source": transaction.Source,
  }
  helpers.RespondSuccess(w, "Transaction created successfully", responseData)
  \<close>
  The handler reads and writes the database; the model passes the committed state in
  and returns it with the response.
\<close>

definition CreateTransactionHandler ::
    "(string \<Rightarrow> float64 option) \<Rightarrow> Pool \<Rightarrow> Request \<Rightarrow> DB \<Rightarrow> Response \<times> DB" where
  "CreateTransactionHandler pf pool r db =
     (case ValidateID (userId r) of
        Inl err \<Rightarrow> (HandleAPIError err, db)
      | Inr userID \<Rightarrow>
          (case GetAccountByUser userID db of
             Inl err \<Rightarrow> (HandleDatabaseError err ''Account'', db)
           | Inr account \<Rightarrow>
               (case ValidateBodyWithDetails (body r)
                       \<lparr>ID = [], AccountID = a_id account, Amount = [], AmountFloat = 0,
                        Source = Source_Type r, TransactionType = [], InsertedAt = []\<rparr> of
                  Inl validationErrors \<Rightarrow> (RespondValidationError validationErrors, db)
                | Inr decoded \<Rightarrow>
                    (case validateAndParseTransactionAmount pf decoded of
                       Inl err \<Rightarrow> (HandleAPIError err, db)
                     | Inr transaction \<Rightarrow>
                         (case runInTx pool (CreateTransactionHandler_fn transaction account) db of
                            (Some err, db') \<Rightarrow> (HandleDatabaseError err ''Transaction'', db')
                          | (None, db') \<Rightarrow>
                              (RespondSuccess
                                 [(''user_account_id'', JInt userID),
                                  (''transaction_id'', JString (ID transaction)),
                                  (''amount'', JNumber (AmountFloat transaction)),
                                  (''type'', JString (TransactionType transaction)),
                                  (''source'', JString (Source transaction))],
                               db'))))))"

text \<open>
  A sequence of requests served one after the other, each with the pool's behaviour
  at that moment: the responses in order, and the final committed state.
\<close>

fun serve :: "(string \<Rightarrow> float64 option) \<Rightarrow> (Pool \<times> Request) list \<Rightarrow> DB \<Rightarrow> Response list \<times> DB" where
  "serve pf [] db = ([], db)"
| "serve pf ((pool, r) # rs) db =
     (case CreateTransactionHandler pf pool r db of
        (resp, db1) \<Rightarrow> (case serve pf rs db1 of (resps, db2) \<Rightarrow> (resp # resps, db2)))"

section \<open>The amount normalizer on binary64 values\<close>

text \<open>
  \<^verbatim>\<open>helpers.ParseAmount\<close> computes on \<^verbatim>\<open>float64\<close>: the product
  \<^verbatim>\<open>amount*100\<close> and the quotient by \<^verbatim>\<open>100\<close> are each rounded to the nearest
  binary64 value (ties to the even significand), and the parsed value can be an infinity
  or no number at all. This section models that arithmetic. A finite value is
  \<open>Finite m e\<close>, the number \<open>m * 2\<^sup>e\<close>, in the one form with
  \<open>2\<^sup>5\<^sup>2 \<le> \<bar>m\<bar> < 2\<^sup>5\<^sup>3\<close>, or with \<open>e = -1074\<close> and \<open>\<bar>m\<bar> < 2\<^sup>5\<^sup>2\<close>
  (subnormal values and zero). The sign of a zero is not kept; it decides nothing here.
\<close>

datatype binary64 = Finite int int | PosInf | NegInf | NaN

text \<open>The number a finite value stands for (0 for the values that stand for none).\<close>

definition valof :: "binary64 \<Rightarrow> real" where
  "valof x =
     (case x of
        Finite m e \<Rightarrow> if 0 \<le> e then of_int m * 2 ^ nat e else of_int m / 2 ^ nat (- e)
      | _ \<Rightarrow> 0)"

text \<open>The number of binary digits of a positive integer.\<close>

function bit_length :: "int \<Rightarrow> int" where
  "bit_length n = (if n \<le> 0 then 0 else 1 + bit_length (n div 2))"
  by auto
termination
  by (relation "measure nat") auto

declare bit_length.simps [simp del]

text \<open>
  \<open>a / b\<close> rounded to the nearest integer, a tie going to the even one, for
  \<open>a \<ge> 0\<close> and \<open>b > 0\<close>.
\<close>

definition rne :: "int \<Rightarrow> int \<Rightarrow> int" where
  "rne a b =
     (let q = a div b; r = a mod b
      in if 2 * r < b then q else if b < 2 * r then q + 1 else if even q then q else q + 1)"

text \<open>The integer part of the binary logarithm of \<open>n / b\<close>, for positive \<open>n\<close> and \<open>b\<close>.\<close>

definition floor_log2 :: "int \<Rightarrow> int \<Rightarrow> int" where
  "floor_log2 n b =
     (let la = bit_length n; lb = bit_length b
      in if (if lb \<le> la then b * 2 ^ nat (la - lb) \<le> n else b \<le> n * 2 ^ nat (lb - la))
         then la - lb else la - lb - 1)"

text \<open>\<open>(n / b) * 2\<^sup>s\<close> rounded to the nearest integer, ties to even.\<close>

definition scaled_rne :: "int \<Rightarrow> int \<Rightarrow> int \<Rightarrow> int" where
  "scaled_rne n b s = (if 0 \<le> s then rne (n * 2 ^ nat s) b else rne n (b * 2 ^ nat (- s)))"

text \<open>
  The binary64 value with significand \<open>m\<close> (at most \<open>2\<^sup>5\<^sup>3\<close>, as rounding
  leaves it) and exponent \<open>t\<close>, negated when \<open>neg\<close>: an infinity when it is beyond
  the largest finite value.
\<close>

definition pack :: "bool \<Rightarrow> int \<Rightarrow> int \<Rightarrow> binary64" where
  "pack neg m t =
     (let m' = (if m = 2 ^ 53 then 2 ^ 52 else m); t' = (if m = 2 ^ 53 then t + 1 else t)
      in if 971 < t' then (if neg then NegInf else PosInf)
         else if m' = 0 then Finite 0 (- 1074)
         else Finite (if neg then - m' else m') t')"

text \<open>
  Rounding to nearest: the binary64 value nearest to \<open>(a / b) * 2\<^sup>e\<close>, for
  \<open>b > 0\<close>. The result has 53 significant bits, or fewer below the smallest normal
  value.
\<close>

definition round64 :: "int \<Rightarrow> int \<Rightarrow> int \<Rightarrow> binary64" where
  "round64 a b e =
     (if a = 0 then Finite 0 (- 1074)
      else (let t = max (floor_log2 \<bar>a\<bar> b + e - 52) (- 1074)
            in pack (a < 0) (scaled_rne \<bar>a\<bar> b (e - t)) t))"

text \<open>The constants \<^verbatim>\<open>0\<close> and \<^verbatim>\<open>100\<close> of the source, as binary64 values.\<close>

definition zero64 :: binary64 where
  "zero64 = Finite 0 (- 1074)"

definition hundred64 :: binary64 where
  "hundred64 = Finite 7036874417766400 (- 46)"

text \<open>
  The comparison \<^verbatim>\<open>x <= y\<close>: false as soon as one side is no number.
\<close>

fun fle :: "binary64 \<Rightarrow> binary64 \<Rightarrow> bool" where
  "fle NaN y = False"
| "fle x NaN = False"
| "fle NegInf y = True"
| "fle x PosInf = True"
| "fle PosInf y = False"
| "fle x NegInf = False"
| "fle (Finite m e) (Finite m' e') =
     (m * 2 ^ nat (e - min e e') \<le> m' * 2 ^ nat (e' - min e e'))"

text \<open>The product \<^verbatim>\<open>x * y\<close> and the quotient \<^verbatim>\<open>x / y\<close>, rounded to nearest.\<close>

fun fmul :: "binary64 \<Rightarrow> binary64 \<Rightarrow> binary64" where
  "fmul NaN y = NaN"
| "fmul x NaN = NaN"
| "fmul (Finite m e) (Finite m' e') = round64 (m * m') 1 (e + e')"
| "fmul (Finite m e) PosInf = (if m = 0 then NaN else if 0 < m then PosInf else NegInf)"
| "fmul (Finite m e) NegInf = (if m = 0 then NaN else if 0 < m then NegInf else PosInf)"
| "fmul PosInf (Finite m e) = (if m = 0 then NaN else if 0 < m then PosInf else NegInf)"
| "fmul NegInf (Finite m e) = (if m = 0 then NaN else if 0 < m then NegInf else PosInf)"
| "fmul PosInf PosInf = PosInf"
| "fmul PosInf NegInf = NegInf"
| "fmul NegInf PosInf = NegInf"
| "fmul NegInf NegInf = PosInf"

fun fdiv :: "binary64 \<Rightarrow> binary64 \<Rightarrow> binary64" where
  "fdiv NaN y = NaN"
| "fdiv x NaN = NaN"
| "fdiv (Finite m e) (Finite m' e') =
     (if m' = 0 then (if m = 0 then NaN else if 0 < m then PosInf else NegInf)
      else round64 (if m' < 0 then - m else m) \<bar>m'\<bar> (e - e'))"
| "fdiv (Finite m e) PosInf = zero64"
| "fdiv (Finite m e) NegInf = zero64"
| "fdiv PosInf (Finite m e) = (if m < 0 then NegInf else PosInf)"
| "fdiv NegInf (Finite m e) = (if m < 0 then PosInf else NegInf)"
| "fdiv PosInf y = NaN"
| "fdiv NegInf y = NaN"

text \<open>
  \<^verbatim>\<open>math.Round\<close> on binary64: the nearest integer, halves away from zero; an
  infinity or no number is returned as it is. \<open>half_away m d\<close> is \<open>m / d\<close> so
  rounded, for \<open>d > 0\<close>.
\<close>

definition half_away :: "int \<Rightarrow> int \<Rightarrow> int" where
  "half_away m d =
     (if m < 0 then - ((2 * (- m) + d) div (2 * d)) else (2 * m + d) div (2 * d))"

fun math_Round64 :: "binary64 \<Rightarrow> binary64" where
  "math_Round64 (Finite m e) =
     (if 0 \<le> e then Finite m e else round64 (half_away m (2 ^ nat (- e))) 1 0)"
| "math_Round64 x = x"

text \<open>
  \<^verbatim>\<open>helpers.ParseAmount\<close> as the Go code computes it. The library function
  \<^verbatim>\<open>strconv.ParseFloat\<close> is the parameter \<open>pf\<close>; \<open>None\<close> is a returned error.
  \<^verbatim>\<open>
  func ParseAmount(amountStr string) (float64, error) {
      if amountStr == "" { return 0, ErrInvalidAmount }
      amount, err := strconv.ParseFloat(amountStr, 64)
      if err != nil { return 0, ErrInvalidAmount }
      if amount <= 0 { return 0, ErrAmountMustBePositive }
      return float64(math.Round(amount*100) / 100), nil
  }
  \<close>
\<close>

definition ParseAmount_binary64 :: "(string \<Rightarrow> binary64 option) \<Rightarrow> string \<Rightarrow> error + binary64" where
  "ParseAmount_binary64 pf amountStr =
     (if amountStr = [] then Inl ErrInvalidAmount
      else case pf amountStr of
             None \<Rightarrow> Inl ErrInvalidAmount
           | Some amount \<Rightarrow>
               if fle amount zero64 then Inl ErrAmountMustBePositive
               else Inr (fdiv (math_Round64 (fmul amount hundred64)) hundred64))"

section \<open>Observations used to state the properties\<close>

text \<open>A response is a success when the handler answered through \<^verbatim>\<open>RespondSuccess\<close>.\<close>

fun is_success :: "Response \<Rightarrow> bool" where
  "is_success (RespondSuccess p) = True"
| "is_success _ = False"

text \<open>
  The signed amount of a committed transaction: \<open>+amount\<close> for a win,
  \<open>-amount\<close> for a lose.
\<close>

definition signed_amount :: "string \<Rightarrow> float64 \<Rightarrow> float64" where
  "signed_amount ty amount = (if ty = ''win'' then amount else if ty = ''lose'' then - amount else 0)"

text \<open>
  The sum of the signed amounts of the ledger rows stored for the account \<open>aid\<close>.
\<close>

definition ledger_sum :: "int \<Rightarrow> LedgerRow list \<Rightarrow> float64" where
  "ledger_sum aid rows =
     (\<Sum>row \<leftarrow> filter (\<lambda>row. t_account_id row = aid) rows. signed_amount (t_type row) (t_amount row))"

text \<open>
  The rows the ledger of \<open>db'\<close> has after those of \<open>db\<close>: the transactions
  committed between the two states.
\<close>

definition new_rows :: "DB \<Rightarrow> DB \<Rightarrow> LedgerRow list" where
  "new_rows db db' = drop (length (transactions db)) (transactions db')"

text \<open>A request whose body, if it decodes, has no \<^verbatim>\<open>account_id\<close> member.\<close>

definition names_no_account :: "Request \<Rightarrow> bool" where
  "names_no_account r = (case body r of Inl _ \<Rightarrow> True | Inr j \<Rightarrow> j_account_id j = None)"

text \<open>The columns of an account other than its balance.\<close>

definition account_frame :: "Account \<Rightarrow> int \<times> int \<times> string \<times> string" where
  "account_frame a = (a_id a, a_user_id a, a_currency a, a_status a)"

section \<open>Example data\<close>

text \<open>
  A stand-in for \<^verbatim>\<open>strconv.ParseFloat\<close> on a handful of literals, all of them
  exactly representable in binary; used to run the model on concrete requests.
\<close>

definition pf_sample :: "string \<Rightarrow> float64 option" where
  "pf_sample s =
     (if s = ''15.25'' then Some (61 / 4)
      else if s = ''10.00'' then Some 10
      else if s = ''5.00'' then Some 5
      else if s = ''0.375'' then Some (3 / 8)
      else if s = ''0.00390625'' then Some (1 / 256)
      else if s = ''0'' then Some 0
      else if s = ''-50.00'' then Some (- 50)
      else None)"



text \<open>
  Values of \<^verbatim>\<open>strconv.ParseFloat(s, 64)\<close> as binary64: the nearest binary64 value
  for a decimal literal (\<^verbatim>\<open>1.115\<close> is not representable; its nearest value lies
  below it), the special values for the strings \<^verbatim>\<open>NaN\<close> and \<^verbatim>\<open>Inf\<close>, which
  the function recognizes, and the value 16 for the hexadecimal literal
  \<^verbatim>\<open>0x1p4\<close>, which it accepts. \<open>None\<close> is a returned error.
\<close>

definition ParseFloat_sample :: "string \<Rightarrow> binary64 option" where
  "ParseFloat_sample s =
     (if s = ''15.25'' then Some (Finite 8584986789675008 (- 49))
      else if s = ''10.00'' then Some (Finite 5629499534213120 (- 49))
      else if s = ''5.00'' then Some (Finite 5629499534213120 (- 50))
      else if s = ''1.115'' then Some (Finite 5021513584518103 (- 52))
      else if s = ''0.00390625'' then Some (Finite 4503599627370496 (- 60))
      else if s = ''0'' then Some (Finite 0 (- 1074))
      else if s = ''-50.00'' then Some (Finite (- 7036874417766400) (- 47))
      else if s = ''NaN'' then Some NaN
      else if s = ''Inf'' then Some PosInf
      else if s = ''0x1p4'' then Some (Finite 4503599627370496 (- 48))
      else None)"
text \<open>
  Two accounts (the first with an id that differs from its user's id), an empty ledger,
  and requests shaped like those of the README:
  \<^verbatim>\<open>-H "Source-Type: game" -d '{"state": "win", "amount": "15.25", "transactionId": "test-win-001"}'\<close>.
\<close>

definition example_db :: DB where
  "example_db =
     \<lparr>accounts =
        [\<lparr>a_id = 7, a_user_id = 1, a_balance = 100, a_currency = ''EUR'', a_status = ''active''\<rparr>,
         \<lparr>a_id = 2, a_user_id = 2, a_balance = 5, a_currency = ''EUR'', a_status = ''active''\<rparr>],
      transactions = []\<rparr>"

definition example_request :: "string \<Rightarrow> string \<Rightarrow> string \<Rightarrow> string \<Rightarrow> Request" where
  "example_request user state amount transactionId =
     \<lparr>userId = user, Source_Type = ''game'',
      body = Inr \<lparr>j_transactionId = Some transactionId, j_account_id = None, j_amount = Some amount,
                  j_AmountFloat = None, j_source = None, j_state = Some state,
                  j_inserted_at = None\<rparr>\<rparr>"

definition example_requests :: "(Pool \<times> Request) list" where
  "example_requests =
     [(pool_ok, example_request ''1'' ''win'' ''15.25'' ''test-win-001''),
      (pool_ok, example_request ''1'' ''win'' ''15.25'' ''test-win-001''),
      (pool_ok, example_request ''2'' ''lose'' ''10.00'' ''test-lose-001''),
      (pool_ok, example_request ''1'' ''lose'' ''10.00'' ''test-lose-002'')]"


text \<open>
  A request of user 1, who owns account 7, with a body that names account 2:
  \<^verbatim>\<open>{"transactionId": "t-1", "account_id": 2, "amount": "5.00", "state": "win"}\<close>.
\<close>

definition example_request_with_account_id :: Request where
  "example_request_with_account_id =
     \<lparr>userId = ''1'', Source_Type = ''game'',
      body = Inr \<lparr>j_transactionId = Some ''t-1'', j_account_id = Some 2, j_amount = Some ''5.00'',
                  j_AmountFloat = None, j_source = None, j_state = Some ''win'',
                  j_inserted_at = None\<rparr>\<rparr>"
section \<open>Auxiliary facts\<close>

subsection \<open>Rounding and the column type\<close>

lemma math_Round_of_int: "math_Round (of_int n) = n"
  by (simp add: math_Round_def)

lemma math_Round_nonneg: "0 \<le> x \<Longrightarrow> 0 \<le> math_Round x"
  by (simp add: math_Round_def)

lemma numeric_10_2_cents:
  "numeric_10_2 (of_int n / 100) = (if \<bar>real_of_int n / 100\<bar> < 10 ^ 8 then Some (of_int n / 100) else None)"
  by (simp add: numeric_10_2_def math_Round_of_int)

lemma numeric_10_2_SomeD:
  assumes "numeric_10_2 x = Some b"
  shows "(\<exists>n. b = of_int n / 100) \<and> \<bar>b\<bar> < 10 ^ 8"
proof -
  from assms have b: "b = of_int (math_Round (x * 100)) / 100" and lt: "\<bar>b\<bar> < 10 ^ 8"
    by (simp_all add: numeric_10_2_def Let_def split: if_splits)
  from b have "\<exists>n. b = of_int n / 100" ..
  then show ?thesis using lt ..
qed

lemma numeric_10_2_idem: 
  assumes "numeric_10_2 x = Some b" shows "numeric_10_2 b = Some b"
proof -
  from numeric_10_2_SomeD [OF assms] obtain n where b: "b = of_int n / 100" and lt: "\<bar>b\<bar> < 10 ^ 8"
    by blast
  from lt show ?thesis unfolding b numeric_10_2_cents by simp
qed

lemma ParseAmount_InrD:
  assumes "ParseAmount pf s = Inr amt"
  shows "\<exists>n. 0 \<le> n \<and> amt = of_int n / 100"
proof -
  from assms have ne: "s \<noteq> []"
    by (auto simp: ParseAmount_def)
  from assms ne obtain v where v: "pf s = Some v"
    by (cases "pf s") (auto simp: ParseAmount_def)
  from assms ne v have "0 < v" and amt: "amt = of_int (math_Round (v * 100)) / 100"
    by (auto simp: ParseAmount_def simp del: eq_divide_eq_numeral1 divide_eq_eq_numeral1
          split: if_splits)
  then have "0 \<le> math_Round (v * 100)" by (simp add: math_Round_nonneg)
  with amt show ?thesis by blast
qed

text \<open>Sums and differences of column values stay exact under the coercion.\<close>

lemma numeric_10_2_add_exact:
  assumes "numeric_10_2 x = Some x" and "y = of_int m / 100" and "numeric_10_2 (x + y) = Some b"
  shows "b = x + y"
proof -
  from numeric_10_2_SomeD [OF assms(1)] obtain n where x: "x = of_int n / 100" by blast
  have "x + y = of_int (n + m) / 100" by (simp add: x assms(2) add_divide_distrib)
  with assms(3) show ?thesis by (simp only: numeric_10_2_cents split: if_splits) simp_all
qed

lemma numeric_10_2_diff_exact:
  assumes "numeric_10_2 x = Some x" and "y = of_int m / 100" and "numeric_10_2 (x - y) = Some b"
  shows "b = x - y"
proof -
  from numeric_10_2_SomeD [OF assms(1)] obtain n where x: "x = of_int n / 100" by blast
  have "x - y = of_int (n - m) / 100" by (simp add: x assms(2) diff_divide_distrib)
  with assms(3) show ?thesis by (simp only: numeric_10_2_cents split: if_splits) simp_all
qed

lemma numeric_10_2_diff_fits:
  assumes "numeric_10_2 x = Some x" and "y = of_int m / 100" and "0 \<le> y" and "0 \<le> x - y"
  shows "numeric_10_2 (x - y) = Some (x - y)"
proof -
  from numeric_10_2_SomeD [OF assms(1)] obtain n where x: "x = of_int n / 100" and lt: "\<bar>x\<bar> < 10 ^ 8"
    by blast
  have eq: "x - y = of_int (n - m) / 100" by (simp add: x assms(2) diff_divide_distrib)
  from lt assms(3,4) have "\<bar>x - y\<bar> < 10 ^ 8" by linarith
  then show ?thesis unfolding eq numeric_10_2_cents by simp
qed

subsection \<open>Tables\<close>

lemma find_set_balance_same:
  "find (\<lambda>a. a_id a = i) (map (\<lambda>a. if a_id a = i then a\<lparr>a_balance := b\<rparr> else a) xs)
     = map_option (\<lambda>a. a\<lparr>a_balance := b\<rparr>) (find (\<lambda>a. a_id a = i) xs)"
  by (induction xs) auto

lemma find_set_balance_other:
  "i \<noteq> j \<Longrightarrow>
   find (\<lambda>a. a_id a = i) (map (\<lambda>a. if a_id a = j then a\<lparr>a_balance := b\<rparr> else a) xs)
     = find (\<lambda>a. a_id a = i) xs"
  by (induction xs) auto

lemma GetAccount_set_balance:
  "GetAccount i (set_balance j b db) =
     (if i = j then map_sum id (\<lambda>a. a\<lparr>a_balance := b\<rparr>) (GetAccount i db) else GetAccount i db)"
  by (auto simp: GetAccount_def set_balance_def find_set_balance_same find_set_balance_other
      split: option.splits)

lemma GetAccount_transactions_update [simp]:
  "GetAccount i (db\<lparr>transactions := ts\<rparr>) = GetAccount i db"
  by (simp add: GetAccount_def)

lemma transactions_set_balance [simp]: "transactions (set_balance i b db) = transactions db"
  by (simp add: set_balance_def)

lemma frame_set_balance:
  "map account_frame (accounts (set_balance i b db))
     = map account_frame (accounts db)"
  by (simp add: set_balance_def account_frame_def comp_def cong: map_cong)

subsection \<open>Queries\<close>

lemma CreateTransaction_Inl: "CreateTransaction arg db = (Inl e, db') \<Longrightarrow> db' = db"
  by (auto simp: CreateTransaction_def Let_def split: option.splits if_splits)

lemma CreateTransaction_Inr:
  assumes "CreateTransaction arg db = (Inr row, db')"
  shows "numeric_10_2 (p_Amount arg) = Some (t_amount row)"
    and "t_id row = p_ID arg" and "t_account_id row = p_AccountID arg"
    and "t_source row = p_Source arg" and "t_type row = p_Type arg"
    and "p_Source arg \<in> {''game'', ''server'', ''payment''}"
    and "p_Type arg \<in> {''win'', ''lose''}"
    and "p_ID arg \<notin> set (map t_id (transactions db))"
    and "p_AccountID arg \<in> set (map a_id (accounts db))"
    and "db' = db\<lparr>transactions := transactions db @ [row]\<rparr>"
  using assms
  by (auto simp: CreateTransaction_def Let_def split: option.splits if_splits)

lemma UpdateAccount_Inl: "UpdateAccount arg db = (Inl e, db') \<Longrightarrow> db' = db"
  by (auto simp: UpdateAccount_def split: option.splits)

lemma UpdateAccount_Inr:
  assumes "UpdateAccount arg db = (Inr a', db')"
  shows "\<exists>a b. GetAccount (u_ID arg) db = Inr a \<and> numeric_10_2 (u_Balance arg) = Some b
           \<and> a' = a\<lparr>a_balance := b\<rparr> \<and> db' = set_balance (u_ID arg) b db"
  using assms
  by (auto simp: UpdateAccount_def GetAccount_def split: option.splits)

subsection \<open>The two steps of the atomic unit\<close>

lemma createTransactionInTx_Inl: "createTransactionInTx t db = (Inl e, db') \<Longrightarrow> db' = db"
  unfolding createTransactionInTx_def by (rule CreateTransaction_Inl)

lemma createTransactionInTx_Inr:
  assumes "createTransactionInTx t db = (Inr row, db')"
  shows "numeric_10_2 (AmountFloat t) = Some (t_amount row)"
    and "t_id row = ID t" and "t_account_id row = AccountID t"
    and "t_source row = Source t" and "t_type row = TransactionType t"
    and "TransactionType t \<in> {''win'', ''lose''}"
    and "ID t \<notin> set (map t_id (transactions db))"
    and "db' = db\<lparr>transactions := transactions db @ [row]\<rparr>"
    and "Source t \<in> {''game'', ''server'', ''payment''}"
    and "AccountID t \<in> set (map a_id (accounts db))"
  using CreateTransaction_Inr [OF assms [unfolded createTransactionInTx_def]]
  by simp_all

lemma createTransactionInTx_duplicate:
  assumes "numeric_10_2 (AmountFloat t) = Some x"
    and "Source t \<in> {''game'', ''server'', ''payment''}"
    and "TransactionType t \<in> {''win'', ''lose''}"
    and "ID t \<in> set (map t_id (transactions db))"
  shows "createTransactionInTx t db = (Inl PgUniqueViolation, db)"
  using assms by (auto simp: createTransactionInTx_def CreateTransaction_def)

lemma updateBalanceInTx_Inl: "updateBalanceInTx i amt ty db = (Inl e, db') \<Longrightarrow> db' = db"
  by (auto simp: updateBalanceInTx_def Let_def split: sum.splits if_splits dest: UpdateAccount_Inl)

lemma updateBalanceInTx_Inr:
  assumes "updateBalanceInTx i amt ty db = (Inr a', db')"
  shows "\<exists>a nb b. GetAccount i db = Inr a
           \<and> ((ty = ''win'' \<or> ty = ''deposit'') \<and> nb = a_balance a + amt
                \<or> (ty = ''lose'' \<or> ty = ''withdrawal'') \<and> nb = a_balance a - amt \<and> 0 \<le> nb)
           \<and> numeric_10_2 nb = Some b \<and> a' = a\<lparr>a_balance := b\<rparr> \<and> db' = set_balance i b db"
  using assms
  by (auto simp: updateBalanceInTx_def Let_def split: sum.splits if_splits dest!: UpdateAccount_Inr)

subsection \<open>The atomic unit\<close>

lemma runInTx_Some: "runInTx pool fn db = (Some e, db') \<Longrightarrow> db' = db"
  by (auto simp: runInTx_def split: option.splits prod.splits)

lemma runInTx_None:
  "runInTx pool fn db = (None, db') \<Longrightarrow>
     begin_err pool = None \<and> commit_err pool = None \<and> fn db = (None, db')"
  by (auto simp: runInTx_def split: option.splits prod.splits)

lemma fn_None:
  assumes "CreateTransactionHandler_fn t acc db = (None, db')"
  shows "\<exists>row a'. createTransactionInTx t db = (Inr row, db\<lparr>transactions := transactions db @ [row]\<rparr>)
           \<and> updateBalanceInTx (a_id acc) (AmountFloat t) (TransactionType t)
                 (db\<lparr>transactions := transactions db @ [row]\<rparr>) = (Inr a', db')"
  using assms
  by (auto simp: CreateTransactionHandler_fn_def split: prod.splits sum.splits
      dest: createTransactionInTx_Inr(8))

subsection \<open>The handler\<close>

lemma handler_failure:
  "CreateTransactionHandler pf pool r db = (resp, db') \<Longrightarrow> \<not> is_success resp \<Longrightarrow> db' = db"
  by (auto simp: CreateTransactionHandler_def
      split: sum.splits prod.splits option.splits dest: runInTx_Some)

lemma handler_success:
  assumes "CreateTransactionHandler pf pool r db = (RespondSuccess p, db')"
  shows "\<exists>userID account decoded amount.
           ValidateID (userId r) = Inr userID
         \<and> GetAccountByUser userID db = Inr account
         \<and> ValidateBodyWithDetails (body r)
               \<lparr>ID = [], AccountID = a_id account, Amount = [], AmountFloat = 0,
                Source = Source_Type r, TransactionType = [], InsertedAt = []\<rparr> = Inr decoded
         \<and> ParseAmount pf (Amount decoded) = Inr amount
         \<and> begin_err pool = None \<and> commit_err pool = None
         \<and> CreateTransactionHandler_fn (decoded\<lparr>AmountFloat := amount\<rparr>) account db = (None, db')
         \<and> p = [(''user_account_id'', JInt userID),
                 (''transaction_id'', JString (ID decoded)),
                 (''amount'', JNumber amount),
                 (''type'', JString (TransactionType decoded)),
                 (''source'', JString (Source decoded))]"
  using assms
  by (auto simp: CreateTransactionHandler_def validateAndParseTransactionAmount_def
      split: sum.splits prod.splits option.splits dest!: runInTx_None)


subsection \<open>What every request preserves\<close>

lemma ValidateBodyWithDetails_ID:
  "ValidateBodyWithDetails (Inr j) t0 = Inr decoded \<Longrightarrow> j_transactionId j = Some tid \<Longrightarrow> ID decoded = tid"
  by (auto simp: ValidateBodyWithDetails_def Let_def json_Decode_def split: if_splits list.splits)

lemma fn_ledger:
  assumes "CreateTransactionHandler_fn t acc db = (None, db')"
  shows "\<exists>row b. db' = set_balance (a_id acc) b (db\<lparr>transactions := transactions db @ [row]\<rparr>)
       \<and> t_id row = ID t \<and> t_account_id row = AccountID t \<and> ID t \<notin> set (map t_id (transactions db))"
proof -
  from fn_None [OF assms] obtain row a' where
    ins: "createTransactionInTx t db = (Inr row, db\<lparr>transactions := transactions db @ [row]\<rparr>)"
    and upd: "updateBalanceInTx (a_id acc) (AmountFloat t) (TransactionType t)
                (db\<lparr>transactions := transactions db @ [row]\<rparr>) = (Inr a', db')"
    by blast
  from updateBalanceInTx_Inr [OF upd] obtain b where
    "db' = set_balance (a_id acc) b (db\<lparr>transactions := transactions db @ [row]\<rparr>)" by blast
  with createTransactionInTx_Inr(2,3,7) [OF ins] show ?thesis by blast
qed

lemma handler_ledger:
  assumes "CreateTransactionHandler pf pool r db = (resp, db')"
  shows "\<exists>rows. transactions db' = transactions db @ rows"
proof (cases "is_success resp")
  case False
  with assms have "db' = db" by (rule handler_failure)
  then show ?thesis by simp
next
  case True
  then obtain p where "resp = RespondSuccess p" by (cases resp) simp_all
  with assms handler_success obtain t acc where "CreateTransactionHandler_fn t acc db = (None, db')"
    by blast
  from fn_ledger [OF this] show ?thesis by auto
qed

lemma handler_frame:
  assumes "CreateTransactionHandler pf pool r db = (resp, db')"
  shows "map account_frame (accounts db')
           = map account_frame (accounts db)"
proof (cases "is_success resp")
  case False
  with assms have "db' = db" by (rule handler_failure)
  then show ?thesis by simp
next
  case True
  then obtain p where "resp = RespondSuccess p" by (cases resp) simp_all
  with assms handler_success obtain t acc where "CreateTransactionHandler_fn t acc db = (None, db')"
    by blast
  from fn_ledger [OF this] obtain row b where
    "db' = set_balance (a_id acc) b (db\<lparr>transactions := transactions db @ [row]\<rparr>)" by blast
  then show ?thesis by (simp add: frame_set_balance)
qed

lemma serve_ledger:
  "serve pf rs db = (resps, db') \<Longrightarrow> \<exists>rows. transactions db' = transactions db @ rows"
proof (induction rs arbitrary: db resps)
  case Nil
  then show ?case by simp
next
  case (Cons x rs)
  obtain pool r where x: "x = (pool, r)" by (cases x)
  obtain resp db1 where h: "CreateTransactionHandler pf pool r db = (resp, db1)" by (cases "CreateTransactionHandler pf pool r db")
  obtain resps' where s: "serve pf rs db1 = (resps', db')"
    using Cons.prems by (auto simp: x h split: prod.splits)
  from handler_ledger [OF h] Cons.IH [OF s] show ?case by auto
qed

lemma serve_frame:
  "serve pf rs db = (resps, db') \<Longrightarrow>
     map account_frame (accounts db')
       = map account_frame (accounts db)"
proof (induction rs arbitrary: db resps)
  case Nil
  then show ?case by simp
next
  case (Cons x rs)
  obtain pool r where x: "x = (pool, r)" by (cases x)
  obtain resp db1 where h: "CreateTransactionHandler pf pool r db = (resp, db1)" by (cases "CreateTransactionHandler pf pool r db")
  obtain resps' where s: "serve pf rs db1 = (resps', db')"
    using Cons.prems by (auto simp: x h split: prod.splits)
  from handler_frame [OF h] Cons.IH [OF s] show ?case by simp
qed

lemma find_user_frame:
  "map_option a_id (find (\<lambda>a. a_user_id a = u) xs)
     = map_option fst (find (\<lambda>t. fst (snd t) = u) (map account_frame xs))"
  by (induction xs) (auto simp: account_frame_def)

lemma GetAccountByUser_frame:
  assumes "map account_frame (accounts db')
             = map account_frame (accounts db)"
    and "GetAccountByUser u db = Inr acc"
  shows "\<exists>acc'. GetAccountByUser u db' = Inr acc' \<and> a_id acc' = a_id acc"
proof -
  have "map_option a_id (find (\<lambda>a. a_user_id a = u) (accounts db'))
          = map_option a_id (find (\<lambda>a. a_user_id a = u) (accounts db))"
    by (simp only: find_user_frame assms(1))
  with assms(2) show ?thesis
    by (auto simp: GetAccountByUser_def split: option.splits)
qed

subsection \<open>One request and the balance of an account\<close>

lemma ValidateBodyWithDetails_InrD:
  assumes "ValidateBodyWithDetails b t0 = Inr decoded"
  shows "\<exists>j. b = Inr j \<and> decoded = json_Decode j t0 \<and> validate_Struct decoded = []"
  using assms
  by (auto simp: ValidateBodyWithDetails_def Let_def split: sum.splits if_splits list.splits)

lemma handler_success_state:
  assumes run: "CreateTransactionHandler pf pool r db = (RespondSuccess p, db')"
  shows "\<exists>userID account decoded amount a b.
           ValidateID (userId r) = Inr userID
         \<and> GetAccountByUser userID db = Inr account
         \<and> ValidateBodyWithDetails (body r)
               \<lparr>ID = [], AccountID = a_id account, Amount = [], AmountFloat = 0,
                Source = Source_Type r, TransactionType = [], InsertedAt = []\<rparr> = Inr decoded
         \<and> ParseAmount pf (Amount decoded) = Inr amount
         \<and> TransactionType decoded \<in> {''win'', ''lose''}
         \<and> ID decoded \<notin> set (map t_id (transactions db))
         \<and> GetAccount (a_id account) db = Inr a
         \<and> (TransactionType decoded = ''lose'' \<longrightarrow> amount \<le> a_balance a)
         \<and> numeric_10_2 (a_balance a + signed_amount (TransactionType decoded) amount) = Some b
         \<and> db' = set_balance (a_id account) b
                   (db\<lparr>transactions := transactions db @
                         [\<lparr>t_id = ID decoded, t_account_id = AccountID decoded, t_amount = amount,
                           t_source = Source decoded, t_type = TransactionType decoded\<rparr>]\<rparr>)"
proof -
  from handler_success [OF run]
  obtain userID account decoded amount where
    uid: "ValidateID (userId r) = Inr userID"
    and user: "GetAccountByUser userID db = Inr account"
    and v: "ValidateBodyWithDetails (body r)
               \<lparr>ID = [], AccountID = a_id account, Amount = [], AmountFloat = 0,
                Source = Source_Type r, TransactionType = [], InsertedAt = []\<rparr> = Inr decoded"
    and amount: "ParseAmount pf (Amount decoded) = Inr amount"
    and fn: "CreateTransactionHandler_fn (decoded\<lparr>AmountFloat := amount\<rparr>) account db = (None, db')"
    by blast
  from fn_None [OF fn] obtain row a' where
    ins: "createTransactionInTx (decoded\<lparr>AmountFloat := amount\<rparr>) db
            = (Inr row, db\<lparr>transactions := transactions db @ [row]\<rparr>)"
    and upd: "updateBalanceInTx (a_id account) amount (TransactionType decoded)
                (db\<lparr>transactions := transactions db @ [row]\<rparr>) = (Inr a', db')"
    by auto
  note r = createTransactionInTx_Inr [OF ins]
  from r(6) have ty: "TransactionType decoded = ''win'' \<or> TransactionType decoded = ''lose''" by simp
  from r(7) have fresh: "ID decoded \<notin> set (map t_id (transactions db))" by simp
  from ParseAmount_InrD [OF amount] obtain n where n: "0 \<le> n" "amount = of_int n / 100" by blast
  from r(1) have "numeric_10_2 (of_int n / 100) = Some (t_amount row)" by (simp add: n(2))
  then have "t_amount row = of_int n / 100"
    by (simp only: numeric_10_2_cents split: if_splits) simp_all
  with r(2-5) have row: "row = \<lparr>t_id = ID decoded, t_account_id = AccountID decoded, t_amount = amount,
                           t_source = Source decoded, t_type = TransactionType decoded\<rparr>"
    by (cases row) (simp add: n(2))
  from updateBalanceInTx_Inr [OF upd] obtain a nb b where
    a: "GetAccount (a_id account) db = Inr a"
    and nb: "(TransactionType decoded = ''win'' \<or> TransactionType decoded = ''deposit'') \<and> nb = a_balance a + amount
              \<or> (TransactionType decoded = ''lose'' \<or> TransactionType decoded = ''withdrawal'') \<and> nb = a_balance a - amount \<and> 0 \<le> nb"
    and b: "numeric_10_2 nb = Some b"
    and db': "db' = set_balance (a_id account) b (db\<lparr>transactions := transactions db @ [row]\<rparr>)"
    by auto
  from nb ty consider
      (win) "TransactionType decoded = ''win''" "nb = a_balance a + amount"
    | (lose) "TransactionType decoded = ''lose''" "nb = a_balance a - amount" "0 \<le> nb"
    by auto
  then have nb': "nb = a_balance a + signed_amount (TransactionType decoded) amount"
    and lose: "TransactionType decoded = ''lose'' \<longrightarrow> amount \<le> a_balance a"
    by (cases; simp add: signed_amount_def)+
  from ty have ty': "TransactionType decoded \<in> {''win'', ''lose''}" by simp
  from uid user v amount ty' fresh a lose b [unfolded nb'] db' [unfolded row]
  show ?thesis by blast
qed

lemma ledger_sum_append: "ledger_sum aid (xs @ ys) = ledger_sum aid xs + ledger_sum aid ys"
  by (simp add: ledger_sum_def)

lemma new_rows_same [simp]: "new_rows db db = []"
  by (simp add: new_rows_def)

lemma new_rows_trans:
  assumes "transactions db1 = transactions db @ xs" and "transactions db2 = transactions db1 @ ys"
  shows "new_rows db db2 = new_rows db db1 @ new_rows db1 db2"
  using assms by (simp add: new_rows_def)

lemma handler_balance_step:
  assumes acc: "GetAccount aid db = Inr a0"
    and nonneg: "0 \<le> a_balance a0"
    and valid: "numeric_10_2 (a_balance a0) = Some (a_balance a0)"
    and none: "names_no_account r"
    and run: "CreateTransactionHandler pf pool r db = (resp, db1)"
  shows "\<exists>a1. GetAccount aid db1 = Inr a1
           \<and> a_balance a1 = a_balance a0 + ledger_sum aid (new_rows db db1)
           \<and> 0 \<le> a_balance a1 \<and> numeric_10_2 (a_balance a1) = Some (a_balance a1)"
proof (cases "is_success resp")
  case False
  with run have "db1 = db" by (rule handler_failure)
  with acc nonneg valid show ?thesis
    by (simp add: ledger_sum_def)
next
  case True
  then obtain p where resp: "resp = RespondSuccess p" by (cases resp) simp_all
  from handler_success_state [OF run [unfolded resp]]
  obtain userID and account :: Account and decoded amount a b where
    v: "ValidateBodyWithDetails (body r)
               \<lparr>ID = [], AccountID = a_id account, Amount = [], AmountFloat = 0,
                Source = Source_Type r, TransactionType = [], InsertedAt = []\<rparr> = Inr decoded"
    and amount: "ParseAmount pf (Amount decoded) = Inr amount"
    and ty: "TransactionType decoded \<in> {''win'', ''lose''}"
    and a: "GetAccount (a_id account) db = Inr a"
    and lose: "TransactionType decoded = ''lose'' \<longrightarrow> amount \<le> a_balance a"
    and b: "numeric_10_2 (a_balance a + signed_amount (TransactionType decoded) amount) = Some b"
    and db1: "db1 = set_balance (a_id account) b
                   (db\<lparr>transactions := transactions db @
                         [\<lparr>t_id = ID decoded, t_account_id = AccountID decoded, t_amount = amount,
                           t_source = Source decoded, t_type = TransactionType decoded\<rparr>]\<rparr>)"
    by (elim exE conjE) (rule that; assumption)
  from ValidateBodyWithDetails_InrD [OF v] none have same: "AccountID decoded = a_id account"
    by (auto simp: json_Decode_def names_no_account_def)
  from ParseAmount_InrD [OF amount] obtain n where n: "0 \<le> n" "amount = of_int n / 100" by blast
  have rows: "new_rows db db1
                = [\<lparr>t_id = ID decoded, t_account_id = a_id account, t_amount = amount,
                    t_source = Source decoded, t_type = TransactionType decoded\<rparr>]"
    by (simp add: db1 new_rows_def same)
  show ?thesis
  proof (cases "a_id account = aid")
    case False
    then have "GetAccount aid db1 = Inr a0"
      by (simp add: db1 GetAccount_set_balance acc)
    with False nonneg valid show ?thesis by (simp add: rows ledger_sum_def)
  next
    case same_account: True
    with a acc have a0: "a = a0" by simp
    have get: "GetAccount aid db1 = Inr (a0\<lparr>a_balance := b\<rparr>)"
      using same_account acc by (simp add: db1 GetAccount_set_balance)
    have amt0: "0 \<le> amount" using n by simp
    have signed: "signed_amount (TransactionType decoded) amount = of_int (if TransactionType decoded = ''win'' then n else - n) / 100"
      using ty by (auto simp: signed_amount_def n(2))
    from numeric_10_2_add_exact [OF valid signed b [unfolded a0]]
    have bval: "b = a_balance a0 + signed_amount (TransactionType decoded) amount" .
    have "0 \<le> b"
      using ty lose nonneg amt0 unfolding bval a0 by (auto simp: signed_amount_def)
    moreover have "numeric_10_2 b = Some b" using b by (rule numeric_10_2_idem)
    ultimately show ?thesis using same_account by (simp add: get rows ledger_sum_def bval)
  qed
qed

lemma serve_balance:
  assumes "GetAccount aid db = Inr a0" and "0 \<le> a_balance a0"
    and "numeric_10_2 (a_balance a0) = Some (a_balance a0)"
    and "\<forall>q \<in> set qs. names_no_account (snd q)"
  shows "\<exists>a. GetAccount aid (snd (serve pf qs db)) = Inr a
           \<and> a_balance a = a_balance a0 + ledger_sum aid (new_rows db (snd (serve pf qs db)))
           \<and> 0 \<le> a_balance a"
  using assms
proof (induction qs arbitrary: db a0)
  case Nil
  then show ?case by (simp add: ledger_sum_def)
next
  case (Cons q qs)
  obtain pool r where q: "q = (pool, r)" by (cases q)
  obtain resp db1 where h: "CreateTransactionHandler pf pool r db = (resp, db1)"
    by (cases "CreateTransactionHandler pf pool r db")
  from Cons.prems(4) have none: "names_no_account r" and rest: "\<forall>q \<in> set qs. names_no_account (snd q)"
    by (simp_all add: q)
  \<comment> \<open>one request: the balance moves by the signed amount of the row it adds\<close>
  from handler_balance_step [OF Cons.prems(1-3) none h] obtain a1 where
    a1: "GetAccount aid db1 = Inr a1"
    and bal: "a_balance a1 = a_balance a0 + ledger_sum aid (new_rows db db1)"
    and inv: "0 \<le> a_balance a1" "numeric_10_2 (a_balance a1) = Some (a_balance a1)"
    by blast
  obtain resps' db' where s: "serve pf qs db1 = (resps', db')"
    by (cases "serve pf qs db1")
  \<comment> \<open>the remaining requests, from the state and balance reached\<close>
  from Cons.IH [OF a1 inv rest, unfolded s] obtain a where
    a: "GetAccount aid db' = Inr a"
    "a_balance a = a_balance a1 + ledger_sum aid (new_rows db1 db')"
    "0 \<le> a_balance a"
    by auto
  from handler_ledger [OF h] serve_ledger [OF s]
  have "new_rows db db' = new_rows db db1 @ new_rows db1 db'"
    by (auto intro: new_rows_trans)
  with a bal show ?case
    by (simp add: q h s ledger_sum_append)
qed

subsection \<open>Running the model\<close>

lemmas model_defs =
  CreateTransactionHandler_def ValidateID_def strconv_ParseInt_def digit_def
  GetAccountByUser_def ValidateBodyWithDetails_def json_Decode_def isEmptyStruct_def
  validate_Struct_def msg_required_def msg_oneof_def validateAndParseTransactionAmount_def
  ParseAmount_def pf_sample_def math_Round_def runInTx_def pool_ok_def
  CreateTransactionHandler_fn_def createTransactionInTx_def CreateTransaction_def
  numeric_10_2_def updateBalanceInTx_def GetAccount_def UpdateAccount_def set_balance_def
  example_db_def example_request_def Let_def

lemmas binary64_defs =
  ParseAmount_binary64_def round64_def pack_def scaled_rne_def floor_log2_def rne_def
  half_away_def zero64_def hundred64_def Let_def bit_length.simps

lemma example_serve:
  "serve pf_sample example_requests example_db =
     ([RespondSuccess
         [(''user_account_id'', JInt 1), (''transaction_id'', JString ''test-win-001''),
          (''amount'', JNumber (61 / 4)), (''type'', JString ''win''),
          (''source'', JString ''game'')],
       HandleDatabaseError PgUniqueViolation ''Transaction'',
       HandleDatabaseError ErrInsufficientBalance ''Transaction'',
       RespondSuccess
         [(''user_account_id'', JInt 1), (''transaction_id'', JString ''test-lose-002''),
          (''amount'', JNumber 10), (''type'', JString ''lose''),
          (''source'', JString ''game'')]],
      \<lparr>accounts =
         [\<lparr>a_id = 7, a_user_id = 1, a_balance = 421 / 4, a_currency = ''EUR'', a_status = ''active''\<rparr>,
          \<lparr>a_id = 2, a_user_id = 2, a_balance = 5, a_currency = ''EUR'', a_status = ''active''\<rparr>],
       transactions =
         [\<lparr>t_id = ''test-win-001'', t_account_id = 7, t_amount = 61 / 4, t_source = ''game'', t_type = ''win''\<rparr>,
          \<lparr>t_id = ''test-lose-002'', t_account_id = 7, t_amount = 10, t_source = ''game'', t_type = ''lose''\<rparr>]\<rparr>)"
  by (simp add: example_requests_def model_defs)

lemma example_overdraft:
  "CreateTransactionHandler pf_sample pool_ok
      (example_request ''2'' ''lose'' ''10.00'' ''test-lose-001'') example_db
     = (HandleDatabaseError ErrInsufficientBalance ''Transaction'', example_db)"
  by (simp add: model_defs)

subsection \<open>Requests that carry a known transaction id\<close>

lemma handler_known_id_fails:
  assumes b: "body r = Inr j" and tid: "j_transactionId j = Some tid"
    and dup: "tid \<in> set (map t_id (transactions db))"
    and run: "CreateTransactionHandler pf pool r db = (resp, db')"
  shows "\<not> is_success resp \<and> db' = db"
proof -
  have "\<not> is_success resp"
  proof
    assume "is_success resp"
    then obtain p where "resp = RespondSuccess p" by (cases resp) simp_all
    from handler_success [OF run [unfolded this]] obtain account decoded amount where
      v: "ValidateBodyWithDetails (body r)
            \<lparr>ID = [], AccountID = a_id account, Amount = [], AmountFloat = 0,
             Source = Source_Type r, TransactionType = [], InsertedAt = []\<rparr> = Inr decoded"
      and fn: "CreateTransactionHandler_fn (decoded\<lparr>AmountFloat := amount\<rparr>) account db = (None, db')"
      by blast
    from ValidateBodyWithDetails_ID [OF v [unfolded b] tid] have "ID decoded = tid" .
    moreover from fn_ledger [OF fn] have "ID decoded \<notin> set (map t_id (transactions db))" by auto
    ultimately show False using dup by simp
  qed
  with run show ?thesis by (auto dest: handler_failure)
qed

lemma json_Decode_ID: "ID (json_Decode j t0) = (case j_transactionId j of None \<Rightarrow> ID t0 | Some v \<Rightarrow> v)"
  by (simp add: json_Decode_def)

lemma validate_Struct_ID: "validate_Struct t = [] \<Longrightarrow> ID t \<noteq> []"
  by (auto simp: validate_Struct_def split: if_splits)

lemma example_first:
  "CreateTransactionHandler pf_sample pool_ok
      (example_request ''1'' ''win'' ''15.25'' ''test-win-001'') example_db
     = (RespondSuccess
         [(''user_account_id'', JInt 1), (''transaction_id'', JString ''test-win-001''),
          (''amount'', JNumber (61 / 4)), (''type'', JString ''win''),
          (''source'', JString ''game'')],
        \<lparr>accounts =
           [\<lparr>a_id = 7, a_user_id = 1, a_balance = 461 / 4, a_currency = ''EUR'', a_status = ''active''\<rparr>,
            \<lparr>a_id = 2, a_user_id = 2, a_balance = 5, a_currency = ''EUR'', a_status = ''active''\<rparr>],
         transactions =
           [\<lparr>t_id = ''test-win-001'', t_account_id = 7, t_amount = 61 / 4, t_source = ''game'', t_type = ''win''\<rparr>]\<rparr>)"
  by (simp add: model_defs)

subsection \<open>Validation of the transaction type\<close>





lemma GetAccount_Inl: "GetAccount i db = Inl e \<Longrightarrow> e = PgNoRows"
  by (auto simp: GetAccount_def split: option.splits)



section \<open>The claims\<close>

subsection \<open>Balance accounting\<close>

text \<open>
  Claim C1 says that the balance of an account is its initial balance plus the sum of
  the signed amounts of the transactions committed against it. The transactions committed
  against an account are the rows of the ledger that carry its id. The request of user 1
  below succeeds; its body names account 2. Account 7, which user 1 owns, goes from 100
  to 105 while the ledger holds no row for it (sum 0), and account 2 stays at 5 while the
  ledger holds a win of 5 for it (sum 5). The defect is the one of claim C8: the body's
  \<^verbatim>\<open>account_id\<close> replaces the id of the resolved account in the ledger row, and
  the balance update still goes to the resolved account.
\<close>

theorem balance_is_not_initial_plus_ledger_sum:
  "is_success (fst (CreateTransactionHandler pf_sample pool_ok example_request_with_account_id example_db))
   \<and> map (\<lambda>a. (a_id a, a_balance a)) (accounts example_db) = [(7, 100), (2, 5)]
   \<and> map (\<lambda>a. (a_id a, a_balance a))
        (accounts (snd (CreateTransactionHandler pf_sample pool_ok example_request_with_account_id example_db)))
       = [(7, 105), (2, 5)]
   \<and> new_rows example_db
        (snd (CreateTransactionHandler pf_sample pool_ok example_request_with_account_id example_db))
       = [\<lparr>t_id = ''t-1'', t_account_id = 2, t_amount = 5, t_source = ''game'', t_type = ''win''\<rparr>]
   \<and> ledger_sum 7 (new_rows example_db
        (snd (CreateTransactionHandler pf_sample pool_ok example_request_with_account_id example_db))) = 0
   \<and> ledger_sum 2 (new_rows example_db
        (snd (CreateTransactionHandler pf_sample pool_ok example_request_with_account_id example_db))) = 5"
proof -
  have "CreateTransactionHandler pf_sample pool_ok example_request_with_account_id example_db
     = (RespondSuccess
         [(''user_account_id'', JInt 1), (''transaction_id'', JString ''t-1''),
          (''amount'', JNumber 5), (''type'', JString ''win''), (''source'', JString ''game'')],
        \<lparr>accounts =
           [\<lparr>a_id = 7, a_user_id = 1, a_balance = 105, a_currency = ''EUR'', a_status = ''active''\<rparr>,
            \<lparr>a_id = 2, a_user_id = 2, a_balance = 5, a_currency = ''EUR'', a_status = ''active''\<rparr>],
         transactions =
           [\<lparr>t_id = ''t-1'', t_account_id = 2, t_amount = 5, t_source = ''game'', t_type = ''win''\<rparr>]\<rparr>)"
    by (simp add: example_request_with_account_id_def model_defs)
  then show ?thesis
    by (simp add: new_rows_def ledger_sum_def signed_amount_def example_db_def)
qed

text \<open>
  Property X3. The accounting holds for the requests the handler prepares for, those
  whose body has no \<^verbatim>\<open>account_id\<close>. Take an account whose balance is not negative
  (and is a value of its \<^verbatim>\<open>DECIMAL(10, 2)\<close> column) and serve any sequence of such
  requests. After every prefix of the sequence the account still exists, its balance is
  the initial balance plus the sum of the signed amounts (\<open>+amount\<close> for a win,
  \<open>-amount\<close> for a lose) of the ledger rows stored for it since, and the balance is
  not negative.
\<close>

theorem balance_is_initial_plus_ledger_sum:
  assumes "GetAccount aid db = Inr a0" and "0 \<le> a_balance a0"
    and "numeric_10_2 (a_balance a0) = Some (a_balance a0)"
    and "\<forall>q \<in> set rs. names_no_account (snd q)"
  shows "\<forall>n. \<exists>a. GetAccount aid (snd (serve pf (take n rs) db)) = Inr a
           \<and> a_balance a = a_balance a0
                + ledger_sum aid (new_rows db (snd (serve pf (take n rs) db)))
           \<and> 0 \<le> a_balance a"
proof
  fix n
  from assms(4) have "\<forall>q \<in> set (take n rs). names_no_account (snd q)"
    by (auto dest: in_set_takeD)
  with assms(1-3)
  show "\<exists>a. GetAccount aid (snd (serve pf (take n rs) db)) = Inr a
           \<and> a_balance a = a_balance a0
                + ledger_sum aid (new_rows db (snd (serve pf (take n rs) db)))
           \<and> 0 \<le> a_balance a"
    by (rule serve_balance)
qed

theorem balance_is_initial_plus_ledger_sum_witness:
  "GetAccount 7 example_db
     = Inr \<lparr>a_id = 7, a_user_id = 1, a_balance = 100, a_currency = ''EUR'', a_status = ''active''\<rparr>
   \<and> numeric_10_2 100 = Some 100
   \<and> list_all (\<lambda>q. names_no_account (snd q)) example_requests
   \<and> new_rows example_db (snd (serve pf_sample example_requests example_db))
       = [\<lparr>t_id = ''test-win-001'', t_account_id = 7, t_amount = 61 / 4, t_source = ''game'', t_type = ''win''\<rparr>,
          \<lparr>t_id = ''test-lose-002'', t_account_id = 7, t_amount = 10, t_source = ''game'', t_type = ''lose''\<rparr>]
   \<and> (\<exists>a. GetAccount 7 (snd (serve pf_sample example_requests example_db)) = Inr a
         \<and> a_balance a = 100 + (61 / 4 - 10) \<and> 0 \<le> a_balance a)"
proof -
  have h1: "GetAccount 7 example_db
     = Inr \<lparr>a_id = 7, a_user_id = 1, a_balance = 100, a_currency = ''EUR'', a_status = ''active''\<rparr>"
    by (simp add: GetAccount_def example_db_def)
  have h2: "numeric_10_2 100 = Some 100"
    by (simp add: numeric_10_2_def math_Round_def)
  have h3: "\<forall>q \<in> set example_requests. names_no_account (snd q)"
    by (simp add: example_requests_def example_request_def names_no_account_def)
  have rows: "new_rows example_db (snd (serve pf_sample example_requests example_db))
       = [\<lparr>t_id = ''test-win-001'', t_account_id = 7, t_amount = 61 / 4, t_source = ''game'', t_type = ''win''\<rparr>,
          \<lparr>t_id = ''test-lose-002'', t_account_id = 7, t_amount = 10, t_source = ''game'', t_type = ''lose''\<rparr>]"
    by (simp add: example_serve new_rows_def) (simp add: example_db_def)
  from balance_is_initial_plus_ledger_sum [OF h1 _ _ h3, of pf_sample] h2
  have "\<forall>n. \<exists>a. GetAccount 7 (snd (serve pf_sample (take n example_requests) example_db)) = Inr a
           \<and> a_balance a = 100
                + ledger_sum 7 (new_rows example_db (snd (serve pf_sample (take n example_requests) example_db)))
           \<and> 0 \<le> a_balance a"
    by simp
  then have "\<exists>a. GetAccount 7 (snd (serve pf_sample (take 4 example_requests) example_db)) = Inr a
           \<and> a_balance a = 100
                + ledger_sum 7 (new_rows example_db (snd (serve pf_sample (take 4 example_requests) example_db)))
           \<and> 0 \<le> a_balance a" ..
  moreover have "take 4 example_requests = example_requests"
    by (simp add: example_requests_def)
  ultimately show ?thesis using h1 h2 h3
    by (simp add: rows ledger_sum_def signed_amount_def list_all_iff)
qed

subsection \<open>Atomicity\<close>

text \<open>
  Claim C2. Every request either succeeds or fails. When it succeeds, the user id of the
  request resolves to an account, the body decodes to a transaction of type win or lose
  and its amount normalizes, and the committed state has both effects: the ledger has exactly one new
  row, which is that transaction (its id, account id, normalized amount, source and
  type), and the balance of the resolved account is its former balance plus the signed
  amount, as the column stores it; nothing else has changed. When it fails, the committed
  state is the one before the call. Whatever the steps inside the atomic unit wrote
  before one of them failed is dropped by \<open>runInTx\<close>: a state with the ledger row
  but without the balance update (or the reverse) is never committed.
\<close>

theorem apply_is_all_or_nothing:
  assumes "CreateTransactionHandler pf pool r db = (resp, db')"
  shows "((is_success resp
           \<and> (\<exists>userID account decoded amount a b.
                  ValidateID (userId r) = Inr userID
                \<and> GetAccountByUser userID db = Inr account
                \<and> ValidateBodyWithDetails (body r)
                      \<lparr>ID = [], AccountID = a_id account, Amount = [], AmountFloat = 0,
                       Source = Source_Type r, TransactionType = [], InsertedAt = []\<rparr> = Inr decoded
                \<and> ParseAmount pf (Amount decoded) = Inr amount
                \<and> TransactionType decoded \<in> {''win'', ''lose''}
                \<and> ID decoded \<notin> set (map t_id (transactions db))
                \<and> GetAccount (a_id account) db = Inr a
                \<and> numeric_10_2 (a_balance a + signed_amount (TransactionType decoded) amount) = Some b
                \<and> transactions db' = transactions db @
                      [\<lparr>t_id = ID decoded, t_account_id = AccountID decoded, t_amount = amount,
                        t_source = Source decoded, t_type = TransactionType decoded\<rparr>]
                \<and> GetAccount (a_id account) db' = Inr (a\<lparr>a_balance := b\<rparr>)
                \<and> db' = set_balance (a_id account) b
                          (db\<lparr>transactions := transactions db @
                                [\<lparr>t_id = ID decoded, t_account_id = AccountID decoded, t_amount = amount,
                                  t_source = Source decoded, t_type = TransactionType decoded\<rparr>]\<rparr>)))
          \<or> (\<not> is_success resp \<and> db' = db))
       \<and> (\<forall>fn err d. runInTx pool fn db = (Some err, d) \<longrightarrow> d = db)"
proof (rule conjI)
  show "(is_success resp
           \<and> (\<exists>userID account decoded amount a b.
                  ValidateID (userId r) = Inr userID
                \<and> GetAccountByUser userID db = Inr account
                \<and> ValidateBodyWithDetails (body r)
                      \<lparr>ID = [], AccountID = a_id account, Amount = [], AmountFloat = 0,
                       Source = Source_Type r, TransactionType = [], InsertedAt = []\<rparr> = Inr decoded
                \<and> ParseAmount pf (Amount decoded) = Inr amount
                \<and> TransactionType decoded \<in> {''win'', ''lose''}
                \<and> ID decoded \<notin> set (map t_id (transactions db))
                \<and> GetAccount (a_id account) db = Inr a
                \<and> numeric_10_2 (a_balance a + signed_amount (TransactionType decoded) amount) = Some b
                \<and> transactions db' = transactions db @
                      [\<lparr>t_id = ID decoded, t_account_id = AccountID decoded, t_amount = amount,
                        t_source = Source decoded, t_type = TransactionType decoded\<rparr>]
                \<and> GetAccount (a_id account) db' = Inr (a\<lparr>a_balance := b\<rparr>)
                \<and> db' = set_balance (a_id account) b
                          (db\<lparr>transactions := transactions db @
                                [\<lparr>t_id = ID decoded, t_account_id = AccountID decoded, t_amount = amount,
                                  t_source = Source decoded, t_type = TransactionType decoded\<rparr>]\<rparr>)))
          \<or> (\<not> is_success resp \<and> db' = db)"
  proof (cases "is_success resp")
    case False
    with assms have "db' = db" by (rule handler_failure)
    with False show ?thesis by simp
  next
    case True
    then obtain p where "resp = RespondSuccess p" by (cases resp) simp_all
    from handler_success_state [OF assms [unfolded this]]
    obtain userID account decoded amount a b where
      s: "ValidateID (userId r) = Inr userID"
         "GetAccountByUser userID db = Inr account"
         "ValidateBodyWithDetails (body r)
               \<lparr>ID = [], AccountID = a_id account, Amount = [], AmountFloat = 0,
                Source = Source_Type r, TransactionType = [], InsertedAt = []\<rparr> = Inr decoded"
         "ParseAmount pf (Amount decoded) = Inr amount"
         "TransactionType decoded \<in> {''win'', ''lose''}"
         "ID decoded \<notin> set (map t_id (transactions db))"
         "GetAccount (a_id account) db = Inr a"
         "numeric_10_2 (a_balance a + signed_amount (TransactionType decoded) amount) = Some b"
      and db': "db' = set_balance (a_id account) b
                   (db\<lparr>transactions := transactions db @
                         [\<lparr>t_id = ID decoded, t_account_id = AccountID decoded, t_amount = amount,
                           t_source = Source decoded, t_type = TransactionType decoded\<rparr>]\<rparr>)"
      by blast
    have led: "transactions db' = transactions db @
                      [\<lparr>t_id = ID decoded, t_account_id = AccountID decoded, t_amount = amount,
                        t_source = Source decoded, t_type = TransactionType decoded\<rparr>]"
      by (simp add: db')
    have bal: "GetAccount (a_id account) db' = Inr (a\<lparr>a_balance := b\<rparr>)"
      by (simp add: db' GetAccount_set_balance s(7))
    from True s led bal db' show ?thesis by blast
  qed
next
  show "\<forall>fn err d. runInTx pool fn db = (Some err, d) \<longrightarrow> d = db"
    by (auto dest: runInTx_Some)
qed

text \<open>
  The first request of the example commits both effects; the overdraft of account 2
  fails inside the atomic unit after the ledger row was written there, and the committed
  state is unchanged.
\<close>

theorem apply_is_all_or_nothing_witness:
  "is_success (fst (CreateTransactionHandler pf_sample pool_ok
                      (example_request ''1'' ''win'' ''15.25'' ''test-win-001'') example_db))
   \<and> (\<exists>decoded amount a b.
          ValidateBodyWithDetails (body (example_request ''1'' ''win'' ''15.25'' ''test-win-001''))
              \<lparr>ID = [], AccountID = 7, Amount = [], AmountFloat = 0,
               Source = ''game'', TransactionType = [], InsertedAt = []\<rparr> = Inr decoded
        \<and> ParseAmount pf_sample (Amount decoded) = Inr amount
        \<and> GetAccount 7 example_db = Inr a
        \<and> numeric_10_2 (a_balance a + signed_amount (TransactionType decoded) amount) = Some b
        \<and> transactions (snd (CreateTransactionHandler pf_sample pool_ok
                                (example_request ''1'' ''win'' ''15.25'' ''test-win-001'') example_db))
            = transactions example_db @
                [\<lparr>t_id = ID decoded, t_account_id = AccountID decoded, t_amount = amount,
                  t_source = Source decoded, t_type = TransactionType decoded\<rparr>]
        \<and> GetAccount 7 (snd (CreateTransactionHandler pf_sample pool_ok
                                (example_request ''1'' ''win'' ''15.25'' ''test-win-001'') example_db))
            = Inr (a\<lparr>a_balance := b\<rparr>))
   \<and> snd (CreateTransactionHandler pf_sample pool_ok
            (example_request ''1'' ''win'' ''15.25'' ''test-win-001'') example_db)
       = \<lparr>accounts =
           [\<lparr>a_id = 7, a_user_id = 1, a_balance = 461 / 4, a_currency = ''EUR'', a_status = ''active''\<rparr>,
            \<lparr>a_id = 2, a_user_id = 2, a_balance = 5, a_currency = ''EUR'', a_status = ''active''\<rparr>],
          transactions =
           [\<lparr>t_id = ''test-win-001'', t_account_id = 7, t_amount = 61 / 4, t_source = ''game'', t_type = ''win''\<rparr>]\<rparr>
   \<and> CreateTransactionHandler_fn
        \<lparr>ID = ''test-lose-001'', AccountID = 2, Amount = ''10.00'', AmountFloat = 10,
         Source = ''game'', TransactionType = ''lose'', InsertedAt = []\<rparr>
        \<lparr>a_id = 2, a_user_id = 2, a_balance = 5, a_currency = ''EUR'', a_status = ''active''\<rparr>
        example_db
       = (Some ErrInsufficientBalance,
          example_db\<lparr>transactions :=
            [\<lparr>t_id = ''test-lose-001'', t_account_id = 2, t_amount = 10, t_source = ''game'',
              t_type = ''lose''\<rparr>]\<rparr>)
   \<and> CreateTransactionHandler pf_sample pool_ok
        (example_request ''2'' ''lose'' ''10.00'' ''test-lose-001'') example_db
       = (HandleDatabaseError ErrInsufficientBalance ''Transaction'', example_db)"
proof -
  let ?r = "example_request ''1'' ''win'' ''15.25'' ''test-win-001''"
  let ?H = "CreateTransactionHandler pf_sample pool_ok ?r example_db"
  have u: "ValidateID (userId ?r) = Inr 1"
    and acc: "GetAccountByUser 1 example_db
       = Inr \<lparr>a_id = 7, a_user_id = 1, a_balance = 100, a_currency = ''EUR'', a_status = ''active''\<rparr>"
    and src: "Source_Type ?r = ''game''"
    by (simp_all add: model_defs)
  have fn: "CreateTransactionHandler_fn
      \<lparr>ID = ''test-lose-001'', AccountID = 2, Amount = ''10.00'', AmountFloat = 10,
       Source = ''game'', TransactionType = ''lose'', InsertedAt = []\<rparr>
      \<lparr>a_id = 2, a_user_id = 2, a_balance = 5, a_currency = ''EUR'', a_status = ''active''\<rparr>
      example_db
     = (Some ErrInsufficientBalance,
        example_db\<lparr>transactions :=
          [\<lparr>t_id = ''test-lose-001'', t_account_id = 2, t_amount = 10, t_source = ''game'',
            t_type = ''lose''\<rparr>]\<rparr>)"
    by (simp add: model_defs)
  have ok: "is_success (fst ?H)" by (simp add: example_first)
  have "?H = (fst ?H, snd ?H)" by simp
  from apply_is_all_or_nothing [OF this, THEN conjunct1] ok
  obtain userID account decoded amount a b where
    s: "ValidateID (userId ?r) = Inr userID"
       "GetAccountByUser userID example_db = Inr account"
       "ValidateBodyWithDetails (body ?r)
             \<lparr>ID = [], AccountID = a_id account, Amount = [], AmountFloat = 0,
              Source = Source_Type ?r, TransactionType = [], InsertedAt = []\<rparr> = Inr decoded"
       "ParseAmount pf_sample (Amount decoded) = Inr amount"
       "GetAccount (a_id account) example_db = Inr a"
       "numeric_10_2 (a_balance a + signed_amount (TransactionType decoded) amount) = Some b"
       "transactions (snd ?H) = transactions example_db @
                [\<lparr>t_id = ID decoded, t_account_id = AccountID decoded, t_amount = amount,
                  t_source = Source decoded, t_type = TransactionType decoded\<rparr>]"
       "GetAccount (a_id account) (snd ?H) = Inr (a\<lparr>a_balance := b\<rparr>)"
    by (elim disjE exE conjE) ((rule that; assumption), simp)
  from s(1) u have "userID = 1" by simp
  with s(2) acc have "a_id account = 7" by auto
  with s(3-8) src
  have "\<exists>decoded amount a b.
          ValidateBodyWithDetails (body ?r)
              \<lparr>ID = [], AccountID = 7, Amount = [], AmountFloat = 0,
               Source = ''game'', TransactionType = [], InsertedAt = []\<rparr> = Inr decoded
        \<and> ParseAmount pf_sample (Amount decoded) = Inr amount
        \<and> GetAccount 7 example_db = Inr a
        \<and> numeric_10_2 (a_balance a + signed_amount (TransactionType decoded) amount) = Some b
        \<and> transactions (snd ?H)
            = transactions example_db @
                [\<lparr>t_id = ID decoded, t_account_id = AccountID decoded, t_amount = amount,
                  t_source = Source decoded, t_type = TransactionType decoded\<rparr>]
        \<and> GetAccount 7 (snd ?H) = Inr (a\<lparr>a_balance := b\<rparr>)"
    by (simp only:) blast
  moreover have "snd ?H = \<lparr>accounts =
           [\<lparr>a_id = 7, a_user_id = 1, a_balance = 461 / 4, a_currency = ''EUR'', a_status = ''active''\<rparr>,
            \<lparr>a_id = 2, a_user_id = 2, a_balance = 5, a_currency = ''EUR'', a_status = ''active''\<rparr>],
          transactions =
           [\<lparr>t_id = ''test-win-001'', t_account_id = 7, t_amount = 61 / 4, t_source = ''game'', t_type = ''win''\<rparr>]\<rparr>"
    by (simp add: example_first)
  ultimately show ?thesis using ok fn example_overdraft by (intro conjI)
qed

subsection \<open>Duplicate submissions\<close>

text \<open>
  Claim C3. Once a request has been committed, its transaction id is in the ledger, and
  submitting the same request again, at any later moment, fails as a duplicate: the
  insert violates the primary key of the ledger, the handler reports that error for the
  entity \<open>Transaction\<close>, and the state (so the balance, which reflects the first
  application only) is unchanged. Any other request carrying that id fails as well and
  changes nothing. The ledger only grows: the rows it holds are never updated or deleted.
\<close>

theorem duplicate_transaction_rejected:
  assumes first: "CreateTransactionHandler pf pool r db = (RespondSuccess p, db1)"
    and later: "serve pf rs db1 = (resps, db2)"
    and pool2: "begin_err pool2 = None" "rollback_err pool2 = None"
  shows "CreateTransactionHandler pf pool2 r db2
           = (HandleDatabaseError PgUniqueViolation ''Transaction'', db2)
       \<and> (\<exists>rows. transactions db2 = transactions db1 @ rows)
       \<and> (\<forall>pool' r' j j'. body r = Inr j \<longrightarrow> body r' = Inr j'
              \<longrightarrow> j_transactionId j' = j_transactionId j
              \<longrightarrow> \<not> is_success (fst (CreateTransactionHandler pf pool' r' db2))
                  \<and> snd (CreateTransactionHandler pf pool' r' db2) = db2)"
proof -
  from handler_success [OF first] obtain userID account decoded amount where
    uid: "ValidateID (userId r) = Inr userID"
    and acc: "GetAccountByUser userID db = Inr account"
    and v: "ValidateBodyWithDetails (body r)
              \<lparr>ID = [], AccountID = a_id account, Amount = [], AmountFloat = 0,
               Source = Source_Type r, TransactionType = [], InsertedAt = []\<rparr> = Inr decoded"
    and amt: "ParseAmount pf (Amount decoded) = Inr amount"
    and fn: "CreateTransactionHandler_fn (decoded\<lparr>AmountFloat := amount\<rparr>) account db = (None, db1)"
    by blast
  let ?t = "decoded\<lparr>AmountFloat := amount\<rparr>"
  from fn_None [OF fn] obtain row where
    ins: "createTransactionInTx ?t db = (Inr row, db\<lparr>transactions := transactions db @ [row]\<rparr>)"
    by blast
  from fn_ledger [OF fn] obtain row' b where
    db1: "db1 = set_balance (a_id account) b (db\<lparr>transactions := transactions db @ [row']\<rparr>)"
    and row': "t_id row' = ID ?t"
    by blast
  from serve_ledger [OF later] obtain rows where rows: "transactions db2 = transactions db1 @ rows"
    by blast
  have known: "ID decoded \<in> set (map t_id (transactions db2))"
    using row' by (simp add: rows db1)
  \<comment> \<open>the user's account still resolves, to the same id\<close>
  have "map account_frame (accounts db2) = map account_frame (accounts db)"
    using serve_frame [OF later] handler_frame [OF first] by simp
  from GetAccountByUser_frame [OF this acc] obtain account2 where
    acc2: "GetAccountByUser userID db2 = Inr account2" and same: "a_id account2 = a_id account"
    by blast
  have dup: "createTransactionInTx ?t db2 = (Inl PgUniqueViolation, db2)"
    using createTransactionInTx_Inr(1,9,6) [OF ins] known
    by (intro createTransactionInTx_duplicate) simp_all
  have resubmit: "CreateTransactionHandler pf pool2 r db2
           = (HandleDatabaseError PgUniqueViolation ''Transaction'', db2)"
    using uid acc2 v amt dup pool2
    by (simp add: CreateTransactionHandler_def same validateAndParseTransactionAmount_def
        runInTx_def CreateTransactionHandler_fn_def)
  have any: "\<not> is_success (fst (CreateTransactionHandler pf pool' r' db2))
                  \<and> snd (CreateTransactionHandler pf pool' r' db2) = db2"
    if "body r = Inr j" "body r' = Inr j'" "j_transactionId j' = j_transactionId j"
    for pool' r' j j'
  proof -
    from ValidateBodyWithDetails_InrD [OF v] that(1)
    have dec: "decoded = json_Decode j \<lparr>ID = [], AccountID = a_id account, Amount = [], AmountFloat = 0,
               Source = Source_Type r, TransactionType = [], InsertedAt = []\<rparr>"
      and ok: "validate_Struct decoded = []" by auto
    from validate_Struct_ID [OF ok] have "j_transactionId j = Some (ID decoded)"
      unfolding dec by (auto simp: json_Decode_ID split: option.splits)
    with that(3) have "j_transactionId j' = Some (ID decoded)" by simp
    from handler_known_id_fails [OF that(2) this known, of pf pool']
    show ?thesis by (cases "CreateTransactionHandler pf pool' r' db2") simp
  qed
  from resubmit rows any show ?thesis by blast
qed

theorem duplicate_transaction_rejected_witness:
  "CreateTransactionHandler pf_sample pool_ok
      (example_request ''1'' ''win'' ''15.25'' ''test-win-001'')
      \<lparr>accounts =
         [\<lparr>a_id = 7, a_user_id = 1, a_balance = 461 / 4, a_currency = ''EUR'', a_status = ''active''\<rparr>,
          \<lparr>a_id = 2, a_user_id = 2, a_balance = 5, a_currency = ''EUR'', a_status = ''active''\<rparr>],
       transactions =
         [\<lparr>t_id = ''test-win-001'', t_account_id = 7, t_amount = 61 / 4, t_source = ''game'', t_type = ''win''\<rparr>]\<rparr>
     = (HandleDatabaseError PgUniqueViolation ''Transaction'',
        \<lparr>accounts =
         [\<lparr>a_id = 7, a_user_id = 1, a_balance = 461 / 4, a_currency = ''EUR'', a_status = ''active''\<rparr>,
          \<lparr>a_id = 2, a_user_id = 2, a_balance = 5, a_currency = ''EUR'', a_status = ''active''\<rparr>],
       transactions =
         [\<lparr>t_id = ''test-win-001'', t_account_id = 7, t_amount = 61 / 4, t_source = ''game'', t_type = ''win''\<rparr>]\<rparr>)"
proof -
  have "begin_err pool_ok = None" "rollback_err pool_ok = None"
    by (simp_all add: pool_ok_def)
  from duplicate_transaction_rejected [OF example_first _ this, of "[]"]
  show ?thesis by simp
qed

subsection \<open>Overdraft protection\<close>

text \<open>
  Claim C4. For an account with balance \<open>b\<close> and a lose (or withdrawal) of a
  normalized amount \<open>a\<close>, the balance update fails with
  \<open>ErrInsufficientBalance\<close> and leaves the state as it was when \<open>b - a < 0\<close>;
  when \<open>b - a \<ge> 0\<close>, zero included, it stores \<open>b - a\<close> as the new balance and
  returns the updated account.
\<close>

theorem lose_checks_the_balance:
  assumes "GetAccount i db = Inr a"
    and "numeric_10_2 (a_balance a) = Some (a_balance a)"
    and "amount = of_int n / 100" and "0 \<le> n"
    and "ty = ''lose'' \<or> ty = ''withdrawal''"
  shows "updateBalanceInTx i amount ty db =
           (if a_balance a - amount < 0 then (Inl ErrInsufficientBalance, db)
            else (Inr (a\<lparr>a_balance := a_balance a - amount\<rparr>),
                  set_balance i (a_balance a - amount) db))"
proof (cases "a_balance a - amount < 0")
  case True
  with assms(1,5) show ?thesis
    by (auto simp: updateBalanceInTx_def)
next
  case False
  from assms(3,4) have "0 \<le> amount" by simp
  with False assms(2,3) have "numeric_10_2 (a_balance a - amount) = Some (a_balance a - amount)"
    by (intro numeric_10_2_diff_fits) simp_all
  moreover from assms(1) have "find (\<lambda>x. a_id x = i) (accounts db) = Some a"
    by (simp add: GetAccount_def split: option.splits)
  ultimately show ?thesis using False assms(1,5)
    by (auto simp: updateBalanceInTx_def UpdateAccount_def Let_def)
qed

theorem lose_checks_the_balance_witness:
  "updateBalanceInTx 2 10 ''lose'' example_db = (Inl ErrInsufficientBalance, example_db)
   \<and> updateBalanceInTx 2 5 ''lose'' example_db
       = (Inr \<lparr>a_id = 2, a_user_id = 2, a_balance = 0, a_currency = ''EUR'', a_status = ''active''\<rparr>,
          set_balance 2 0 example_db)"
proof -
  have g: "GetAccount 2 example_db
     = Inr \<lparr>a_id = 2, a_user_id = 2, a_balance = 5, a_currency = ''EUR'', a_status = ''active''\<rparr>"
    by (simp add: GetAccount_def example_db_def)
  have v: "numeric_10_2 (a_balance \<lparr>a_id = 2, a_user_id = 2, a_balance = 5, a_currency = ''EUR'', a_status = ''active''\<rparr>)
     = Some (a_balance \<lparr>a_id = 2, a_user_id = 2, a_balance = 5, a_currency = ''EUR'', a_status = ''active''\<rparr>)"
    by (simp add: numeric_10_2_def math_Round_def)
  have "(10::real) = of_int 1000 / 100" "(5::real) = of_int 500 / 100" by simp_all
  from lose_checks_the_balance [OF g v this(1), of "''lose''"]
       lose_checks_the_balance [OF g v this(2), of "''lose''"]
  show ?thesis by simp
qed

subsection \<open>Signed delta and transaction types\<close>




subsection \<open>Success payload\<close>

text \<open>
  Claim C6, as stated, has the success output carry the account id and the new balance.
  In this run the balance of account 7 becomes 115.25; neither that balance nor the id
  of the account occurs in the payload of the success response.
\<close>

theorem success_payload_has_no_balance:
  "CreateTransactionHandler pf_sample pool_ok
      (example_request ''1'' ''win'' ''15.25'' ''test-win-001'') example_db
     = (RespondSuccess
         [(''user_account_id'', JInt 1), (''transaction_id'', JString ''test-win-001''),
          (''amount'', JNumber (61 / 4)), (''type'', JString ''win''),
          (''source'', JString ''game'')],
        \<lparr>accounts =
           [\<lparr>a_id = 7, a_user_id = 1, a_balance = 461 / 4, a_currency = ''EUR'', a_status = ''active''\<rparr>,
            \<lparr>a_id = 2, a_user_id = 2, a_balance = 5, a_currency = ''EUR'', a_status = ''active''\<rparr>],
         transactions =
           [\<lparr>t_id = ''test-win-001'', t_account_id = 7, t_amount = 61 / 4, t_source = ''game'', t_type = ''win''\<rparr>]\<rparr>)
   \<and> JNumber (461 / 4) \<notin> set (map snd
         [(''user_account_id'', JInt 1), (''transaction_id'', JString ''test-win-001''),
          (''amount'', JNumber (61 / 4)), (''type'', JString ''win''),
          (''source'', JString ''game'')])
   \<and> JInt 7 \<notin> set (map snd
         [(''user_account_id'', JInt 1), (''transaction_id'', JString ''test-win-001''),
          (''amount'', JNumber (61 / 4)), (''type'', JString ''win''),
          (''source'', JString ''game'')])"
  by (simp add: model_defs)

text \<open>
  Claim C6, amended. The payload of a success response is the user id of the request
  together with the committed transaction: the id, the normalized amount, the type and
  the source of the ledger row the request appended. It holds no account snapshot.
\<close>

theorem success_payload:
  assumes "CreateTransactionHandler pf pool r db = (RespondSuccess p, db')"
  shows "\<exists>userID row. ValidateID (userId r) = Inr userID
           \<and> transactions db' = transactions db @ [row]
           \<and> p = [(''user_account_id'', JInt userID),
                   (''transaction_id'', JString (t_id row)),
                   (''amount'', JNumber (t_amount row)),
                   (''type'', JString (t_type row)),
                   (''source'', JString (t_source row))]"
proof -
  from handler_success [OF assms] obtain userID account decoded amount where
    uid: "ValidateID (userId r) = Inr userID"
    and amt: "ParseAmount pf (Amount decoded) = Inr amount"
    and fn: "CreateTransactionHandler_fn (decoded\<lparr>AmountFloat := amount\<rparr>) account db = (None, db')"
    and p: "p = [(''user_account_id'', JInt userID), (''transaction_id'', JString (ID decoded)),
                 (''amount'', JNumber amount), (''type'', JString (TransactionType decoded)),
                 (''source'', JString (Source decoded))]"
    by blast
  from fn_None [OF fn] obtain row a' where
    ins: "createTransactionInTx (decoded\<lparr>AmountFloat := amount\<rparr>) db
            = (Inr row, db\<lparr>transactions := transactions db @ [row]\<rparr>)"
    and upd: "updateBalanceInTx (a_id account) amount (TransactionType decoded)
                (db\<lparr>transactions := transactions db @ [row]\<rparr>) = (Inr a', db')"
    by auto
  from updateBalanceInTx_Inr [OF upd] obtain b where
    "db' = set_balance (a_id account) b (db\<lparr>transactions := transactions db @ [row]\<rparr>)" by blast
  then have led: "transactions db' = transactions db @ [row]" by simp
  from ParseAmount_InrD [OF amt] obtain n where n: "amount = of_int n / 100" by blast
  from createTransactionInTx_Inr(1) [OF ins] have "t_amount row = amount"
    by (simp add: n numeric_10_2_cents split: if_splits)
  with createTransactionInTx_Inr(2,4,5) [OF ins] p uid led show ?thesis by simp
qed

theorem success_payload_witness:
  "\<exists>row. transactions (snd (CreateTransactionHandler pf_sample pool_ok
               (example_request ''1'' ''win'' ''15.25'' ''test-win-001'') example_db))
            = transactions example_db @ [row]
         \<and> t_id row = ''test-win-001'' \<and> t_amount row = 61 / 4 \<and> t_type row = ''win''
         \<and> t_source row = ''game''"
  using success_payload [OF example_first] by (auto simp: example_first)

subsection \<open>The amount normalizer\<close>

text \<open>
  Claim C7 says that \<open>ParseAmount\<close> fails with \<open>ErrInvalidAmount\<close> for every
  string that does not parse as a base-10 number. The library parser the function calls
  accepts more than base-10 numbers: for the string \<^verbatim>\<open>NaN\<close> it returns no number,
  without an error, and since the comparison \<^verbatim>\<open>amount <= 0\<close> is false for it, the
  function returns it as a normalized amount. In the same way \<^verbatim>\<open>Inf\<close> is returned
  as an infinite amount, and the hexadecimal literal \<^verbatim>\<open>0x1p4\<close> as the amount 16.
\<close>

theorem ParseAmount_accepts_NaN:
  "ParseAmount_binary64 ParseFloat_sample ''NaN'' = Inr NaN
   \<and> ParseAmount_binary64 ParseFloat_sample ''Inf'' = Inr PosInf
   \<and> ParseAmount_binary64 ParseFloat_sample ''0x1p4'' = Inr (Finite 4503599627370496 (- 48))
   \<and> valof (Finite 4503599627370496 (- 48)) = 16"
  by (simp add: ParseFloat_sample_def binary64_defs valof_def)

text \<open>
  Property X2. A positive value below half a hundredth is accepted and normalized to
  zero: the amount \<open>ParseAmount\<close> returns for \<^verbatim>\<open>0.00390625\<close> (which is
  \<open>2\<^sup>-\<^sup>8\<close>, a binary64 value) is not positive.
\<close>

theorem ParseAmount_small_value_is_zero:
  "ParseFloat_sample ''0.00390625'' = Some (Finite 4503599627370496 (- 60))
   \<and> valof (Finite 4503599627370496 (- 60)) = 1 / 256
   \<and> ParseAmount_binary64 ParseFloat_sample ''0.00390625'' = Inr zero64
   \<and> valof zero64 = 0"
  by (simp add: ParseFloat_sample_def binary64_defs valof_def)

text \<open>
  Property X4. Where the parsed value is a number, the result is the nearest binary64
  value to a whole number of hundredths: \<^verbatim>\<open>15.25\<close> is returned as it is, and
  \<^verbatim>\<open>1.115\<close>, whose nearest binary64 value lies below 1.115 and whose product with
  100 rounds to 111.5, yields the binary64 value nearest to 1.12.
\<close>

theorem ParseAmount_rounds_to_hundredths:
  "ParseAmount_binary64 ParseFloat_sample ''15.25'' = Inr (Finite 8584986789675008 (- 49))
   \<and> valof (Finite 8584986789675008 (- 49)) = 61 / 4
   \<and> fmul (Finite 5021513584518103 (- 52)) hundred64 = Finite 7846114975809536 (- 46)
   \<and> valof (Finite 7846114975809536 (- 46)) = 223 / 2
   \<and> ParseAmount_binary64 ParseFloat_sample ''1.115'' = Inr (round64 112 100 0)
   \<and> round64 112 100 0 = Finite 5044031582654956 (- 52)
   \<and> ParseAmount_binary64 ParseFloat_sample '''' = Inl ErrInvalidAmount
   \<and> ParseAmount_binary64 ParseFloat_sample ''abc'' = Inl ErrInvalidAmount
   \<and> ParseAmount_binary64 ParseFloat_sample ''0'' = Inl ErrAmountMustBePositive
   \<and> ParseAmount_binary64 ParseFloat_sample ''-50.00'' = Inl ErrAmountMustBePositive"
  by (simp add: ParseFloat_sample_def binary64_defs valof_def)

subsection \<open>Ledger row and updated account\<close>

text \<open>
  Claim C8 says that the account id stored in the new ledger row is the id of the
  account whose balance the same atomic unit updates. The handler sets
  \<open>AccountID\<close> from the resolved account and then decodes the body into the same
  struct, so a body with an \<^verbatim>\<open>account_id\<close> replaces it. Here user 1 owns account 7
  and the body names account 2: the ledger row is stored for account 2 while the balance
  of account 7 is credited.
\<close>

theorem ledger_row_names_another_account:
  "CreateTransactionHandler pf_sample pool_ok
      \<lparr>userId = ''1'', Source_Type = ''game'',
       body = Inr \<lparr>j_transactionId = Some ''t-1'', j_account_id = Some 2, j_amount = Some ''5.00'',
                   j_AmountFloat = None, j_source = None, j_state = Some ''win'',
                   j_inserted_at = None\<rparr>\<rparr>
      example_db
     = (RespondSuccess
         [(''user_account_id'', JInt 1), (''transaction_id'', JString ''t-1''),
          (''amount'', JNumber 5), (''type'', JString ''win''), (''source'', JString ''game'')],
        \<lparr>accounts =
           [\<lparr>a_id = 7, a_user_id = 1, a_balance = 105, a_currency = ''EUR'', a_status = ''active''\<rparr>,
            \<lparr>a_id = 2, a_user_id = 2, a_balance = 5, a_currency = ''EUR'', a_status = ''active''\<rparr>],
         transactions =
           [\<lparr>t_id = ''t-1'', t_account_id = 2, t_amount = 5, t_source = ''game'', t_type = ''win''\<rparr>]\<rparr>)"
  by (simp add: model_defs)

text \<open>
  Property X1. The binding holds on the path the handler prepares for: when the body of
  a successful request carries no \<^verbatim>\<open>account_id\<close>, the new ledger row names the
  account whose balance is updated.
\<close>

theorem ledger_row_account_without_body_account_id:
  assumes run: "CreateTransactionHandler pf pool r db = (RespondSuccess p, db')"
    and b: "body r = Inr j" and none: "j_account_id j = None"
  shows "\<exists>row b. db' = set_balance (t_account_id row) b
                        (db\<lparr>transactions := transactions db @ [row]\<rparr>)"
proof -
  from handler_success [OF run] obtain account decoded amount where
    v: "ValidateBodyWithDetails (body r)
          \<lparr>ID = [], AccountID = a_id account, Amount = [], AmountFloat = 0,
           Source = Source_Type r, TransactionType = [], InsertedAt = []\<rparr> = Inr decoded"
    and fn: "CreateTransactionHandler_fn (decoded\<lparr>AmountFloat := amount\<rparr>) account db = (None, db')"
    by blast
  from ValidateBodyWithDetails_InrD [OF v] b none have same: "AccountID decoded = a_id account"
    by (auto simp: json_Decode_def)
  from fn_ledger [OF fn] obtain row b where
    "db' = set_balance (a_id account) b (db\<lparr>transactions := transactions db @ [row]\<rparr>)"
    and "t_account_id row = AccountID (decoded\<lparr>AmountFloat := amount\<rparr>)"
    by blast
  with same have "db' = set_balance (t_account_id row) b
                        (db\<lparr>transactions := transactions db @ [row]\<rparr>)"
    by simp
  then show ?thesis by blast
qed

theorem ledger_row_account_without_body_account_id_witness:
  "\<exists>row b. snd (CreateTransactionHandler pf_sample pool_ok
                   (example_request ''1'' ''win'' ''15.25'' ''test-win-001'') example_db)
             = set_balance (t_account_id row) b
                 (example_db\<lparr>transactions := transactions example_db @ [row]\<rparr>)"
proof -
  have "body (example_request ''1'' ''win'' ''15.25'' ''test-win-001'')
          = Inr \<lparr>j_transactionId = Some ''test-win-001'', j_account_id = None,
                 j_amount = Some ''15.25'', j_AmountFloat = None, j_source = None,
                 j_state = Some ''win'', j_inserted_at = None\<rparr>"
    by (simp add: example_request_def)
  from ledger_row_account_without_body_account_id [OF example_first this]
  show ?thesis by (simp add: example_first)
qed

subsection \<open>Order of the steps\<close>

text \<open>
  Claim C9, as stated, has the amount normalized before the account is loaded, so that a
  request with an unparseable amount and no account fails on the amount. The handler
  looks the account up first: such a request fails on the account.
\<close>

theorem account_lookup_precedes_amount:
  "ParseAmount pf_sample ''abc'' = Inl ErrInvalidAmount
   \<and> GetAccountByUser 99 example_db = Inl PgNoRows
   \<and> CreateTransactionHandler pf_sample pool_ok
        (example_request ''99'' ''win'' ''abc'' ''test-win-001'') example_db
       = (HandleDatabaseError PgNoRows ''Account'', example_db)"
  by (simp add: model_defs)

text \<open>
  Claim C9, amended. The handler validates the user id, then loads the user's account,
  then decodes and validates the body, then normalizes the amount, and then runs the
  atomic unit, in which the ledger row is appended before the balance is read, checked
  and updated. The first step that fails decides the response, and the state is left
  unchanged.
\<close>

theorem order_of_steps:
  fixes r :: Request
  shows
  "(\<forall>e. ValidateID (userId r) = Inl e \<longrightarrow>
       CreateTransactionHandler pf pool r db = (HandleAPIError e, db))
   \<and> (\<forall>u e. ValidateID (userId r) = Inr u \<longrightarrow> GetAccountByUser u db = Inl e \<longrightarrow>
       CreateTransactionHandler pf pool r db = (HandleDatabaseError e ''Account'', db))
   \<and> (\<forall>u acc errs. ValidateID (userId r) = Inr u \<longrightarrow> GetAccountByUser u db = Inr acc \<longrightarrow>
       ValidateBodyWithDetails (body r)
         \<lparr>ID = [], AccountID = a_id acc, Amount = [], AmountFloat = 0,
          Source = Source_Type r, TransactionType = [], InsertedAt = []\<rparr> = Inl errs \<longrightarrow>
       CreateTransactionHandler pf pool r db = (RespondValidationError errs, db))
   \<and> (\<forall>u acc decoded e. ValidateID (userId r) = Inr u \<longrightarrow> GetAccountByUser u db = Inr acc \<longrightarrow>
       ValidateBodyWithDetails (body r)
         \<lparr>ID = [], AccountID = a_id acc, Amount = [], AmountFloat = 0,
          Source = Source_Type r, TransactionType = [], InsertedAt = []\<rparr> = Inr decoded \<longrightarrow>
       ParseAmount pf (Amount decoded) = Inl e \<longrightarrow>
       CreateTransactionHandler pf pool r db = (HandleAPIError e, db))
   \<and> (\<forall>u acc decoded amount e. ValidateID (userId r) = Inr u \<longrightarrow> GetAccountByUser u db = Inr acc \<longrightarrow>
       ValidateBodyWithDetails (body r)
         \<lparr>ID = [], AccountID = a_id acc, Amount = [], AmountFloat = 0,
          Source = Source_Type r, TransactionType = [], InsertedAt = []\<rparr> = Inr decoded \<longrightarrow>
       ParseAmount pf (Amount decoded) = Inr amount \<longrightarrow>
       begin_err pool = None \<longrightarrow> rollback_err pool = None \<longrightarrow>
       fst (createTransactionInTx (decoded\<lparr>AmountFloat := amount\<rparr>) db) = Inl e \<longrightarrow>
       CreateTransactionHandler pf pool r db = (HandleDatabaseError e ''Transaction'', db))
   \<and> (\<forall>u acc decoded amount row db1 e. ValidateID (userId r) = Inr u \<longrightarrow>
       GetAccountByUser u db = Inr acc \<longrightarrow>
       ValidateBodyWithDetails (body r)
         \<lparr>ID = [], AccountID = a_id acc, Amount = [], AmountFloat = 0,
          Source = Source_Type r, TransactionType = [], InsertedAt = []\<rparr> = Inr decoded \<longrightarrow>
       ParseAmount pf (Amount decoded) = Inr amount \<longrightarrow>
       begin_err pool = None \<longrightarrow> rollback_err pool = None \<longrightarrow>
       createTransactionInTx (decoded\<lparr>AmountFloat := amount\<rparr>) db = (Inr row, db1) \<longrightarrow>
       fst (updateBalanceInTx (a_id acc) amount (TransactionType decoded) db1) = Inl e \<longrightarrow>
       CreateTransactionHandler pf pool r db = (HandleDatabaseError e ''Transaction'', db))"
  by (auto simp: CreateTransactionHandler_def validateAndParseTransactionAmount_def runInTx_def
      CreateTransactionHandler_fn_def split: prod.splits sum.splits)

theorem order_of_steps_witness:
  "CreateTransactionHandler pf_sample pool_ok
        (example_request ''99'' ''win'' ''abc'' ''test-win-001'') example_db
       = (HandleDatabaseError PgNoRows ''Account'', example_db)
   \<and> CreateTransactionHandler pf_sample pool_ok
        (example_request ''0'' ''win'' ''abc'' ''test-win-001'') example_db
       = (HandleAPIError ErrInvalidID, example_db)
   \<and> CreateTransactionHandler pf_sample pool_ok
        (example_request ''1'' ''win'' ''abc'' ''test-win-001'') example_db
       = (HandleAPIError ErrInvalidAmount, example_db)"
proof -
  have 1: "ValidateID (userId (example_request ''99'' ''win'' ''abc'' ''test-win-001'')) = Inr 99"
    and 2: "GetAccountByUser 99 example_db = Inl PgNoRows"
    and 3: "ValidateID (userId (example_request ''0'' ''win'' ''abc'' ''test-win-001'')) = Inl ErrInvalidID"
    and 4: "ValidateID (userId (example_request ''1'' ''win'' ''abc'' ''test-win-001'')) = Inr 1"
    and 5: "GetAccountByUser 1 example_db
              = Inr \<lparr>a_id = 7, a_user_id = 1, a_balance = 100, a_currency = ''EUR'', a_status = ''active''\<rparr>"
    by (simp_all add: model_defs)
  have 6: "ValidateBodyWithDetails (body (example_request ''1'' ''win'' ''abc'' ''test-win-001''))
         \<lparr>ID = [], AccountID = a_id \<lparr>a_id = 7, a_user_id = 1, a_balance = 100, a_currency = ''EUR'', a_status = ''active''\<rparr>,
          Amount = [], AmountFloat = 0,
          Source = Source_Type (example_request ''1'' ''win'' ''abc'' ''test-win-001''),
          TransactionType = [], InsertedAt = []\<rparr>
       = Inr \<lparr>ID = ''test-win-001'', AccountID = 7, Amount = ''abc'', AmountFloat = 0,
          Source = ''game'', TransactionType = ''win'', InsertedAt = []\<rparr>"
    by (simp add: model_defs)
  have 7: "ParseAmount pf_sample (Amount \<lparr>ID = ''test-win-001'', AccountID = 7, Amount = ''abc'', AmountFloat = 0,
          Source = ''game'', TransactionType = ''win'', InsertedAt = []\<rparr>) = Inl ErrInvalidAmount"
    by (simp add: model_defs)
  note o1 = order_of_steps [of "example_request ''99'' ''win'' ''abc'' ''test-win-001''" pf_sample pool_ok example_db]
  note o2 = order_of_steps [of "example_request ''0'' ''win'' ''abc'' ''test-win-001''" pf_sample pool_ok example_db]
  note o3 = order_of_steps [of "example_request ''1'' ''win'' ''abc'' ''test-win-001''" pf_sample pool_ok example_db]
  from o1 [THEN conjunct2, THEN conjunct1, rule_format, OF 1 2]
       o2 [THEN conjunct1, rule_format, OF 3]
       o3 [THEN conjunct2, THEN conjunct2, THEN conjunct2, THEN conjunct1, rule_format, OF 4 5 6 7]
  show ?thesis by (intro conjI)
qed

subsection \<open>Frame\<close>

text \<open>
  Claim C10. Applying a transaction changes nothing of an account but its balance: after
  any request, successful or not, every account is still there with the same id, user,
  currency and status.
\<close>

theorem apply_changes_only_the_balance:
  assumes "CreateTransactionHandler pf pool r db = (resp, db')"
  shows "map account_frame (accounts db') = map account_frame (accounts db)
       \<and> (\<forall>i a. GetAccount i db = Inr a \<longrightarrow>
             (\<exists>a'. GetAccount i db' = Inr a' \<and> a_id a' = a_id a \<and> a_user_id a' = a_user_id a
                    \<and> a_currency a' = a_currency a \<and> a_status a' = a_status a))"
proof (intro conjI allI impI)
  show "map account_frame (accounts db') = map account_frame (accounts db)"
    using assms by (rule handler_frame)
next
  fix i a
  assume a: "GetAccount i db = Inr a"
  show "\<exists>a'. GetAccount i db' = Inr a' \<and> a_id a' = a_id a \<and> a_user_id a' = a_user_id a
                    \<and> a_currency a' = a_currency a \<and> a_status a' = a_status a"
  proof (cases "is_success resp")
    case False
    with assms have "db' = db" by (rule handler_failure)
    with a show ?thesis by simp
  next
    case True
    then obtain p where "resp = RespondSuccess p" by (cases resp) simp_all
    with assms handler_success obtain t acc where "CreateTransactionHandler_fn t acc db = (None, db')"
      by blast
    from fn_ledger [OF this] obtain row b where
      "db' = set_balance (a_id acc) b (db\<lparr>transactions := transactions db @ [row]\<rparr>)" by blast
    with a show ?thesis by (auto simp: GetAccount_set_balance)
  qed
qed

theorem apply_changes_only_the_balance_witness:
  "GetAccount 7 example_db
     = Inr \<lparr>a_id = 7, a_user_id = 1, a_balance = 100, a_currency = ''EUR'', a_status = ''active''\<rparr>
   \<and> (\<exists>a'. GetAccount 7
              (snd (CreateTransactionHandler pf_sample pool_ok
                      (example_request ''1'' ''win'' ''15.25'' ''test-win-001'') example_db)) = Inr a'
          \<and> a_id a' = 7 \<and> a_user_id a' = 1 \<and> a_currency a' = ''EUR'' \<and> a_status a' = ''active'')
   \<and> map account_frame
        (accounts (snd (CreateTransactionHandler pf_sample pool_ok
                      (example_request ''1'' ''win'' ''15.25'' ''test-win-001'') example_db)))
       = [(7, 1, ''EUR'', ''active''), (2, 2, ''EUR'', ''active'')]"
proof -
  have g: "GetAccount 7 example_db
       = Inr \<lparr>a_id = 7, a_user_id = 1, a_balance = 100, a_currency = ''EUR'', a_status = ''active''\<rparr>"
    by (simp add: GetAccount_def example_db_def)
  have f: "map account_frame (accounts example_db) = [(7, 1, ''EUR'', ''active''), (2, 2, ''EUR'', ''active'')]"
    by (simp add: account_frame_def example_db_def)
  obtain resp db' where run: "CreateTransactionHandler pf_sample pool_ok
      (example_request ''1'' ''win'' ''15.25'' ''test-win-001'') example_db = (resp, db')"
    by (cases "CreateTransactionHandler pf_sample pool_ok
      (example_request ''1'' ''win'' ''15.25'' ''test-win-001'') example_db")
  from apply_changes_only_the_balance [OF run]
  have 1: "map account_frame (accounts db') = map account_frame (accounts example_db)"
    and 2: "\<forall>i a. GetAccount i example_db = Inr a \<longrightarrow>
             (\<exists>a'. GetAccount i db' = Inr a' \<and> a_id a' = a_id a \<and> a_user_id a' = a_user_id a
                    \<and> a_currency a' = a_currency a \<and> a_status a' = a_status a)"
    by blast+
  from 2 g have "\<exists>a'. GetAccount 7 db' = Inr a' \<and> a_id a' = 7 \<and> a_user_id a' = 1
                    \<and> a_currency a' = ''EUR'' \<and> a_status a' = ''active''"
    by fastforce
  with 1 f g show ?thesis by (simp add: run)
qed


end
